theory Spec2Isabelle
  imports Complex_Main "HOL-Library.List_Lexorder" "HOL-Library.Char_ord"
    "HOL-Library.Product_Lexorder"
begin

section \<open>Data model (src/types)\<close>

text \<open>
  Identifiers and names are strings. JavaScript numbers that the engine only ever
  receives as integers (capacities, student counts, semesters, periods per week; the
  screens read them with \<open>parseInt\<close>) are \<open>int\<close>; days, periods, counters and
  list lengths are \<open>nat\<close>. The fractional workload limit 1.5 is a \<open>rat\<close>.
  Fields that no engine function reads (\<open>code\<close> apart, which a message prints) are left
  out of the records: \<open>constraints\<close>, \<open>section\<close>, \<open>employeeId\<close> and the
  \<open>createdAt\<close> stamps of the input entities.

  \<open>a.id.localeCompare(b.id)\<close> is modelled by the lexicographic order of the character
  codes, the linear order that \<open>sort_key\<close> uses on strings; \<open>Array.prototype.sort\<close> is
  stable, as \<open>sort_key\<close> is.
\<close>

type_synonym Day = nat
type_synonym Period = nat

datatype LabSlotName = SlotA | SlotB

datatype SubjectType = THEORY | LAB | MANDATORY | OPEN_ELECTIVE | LIBRARY

datatype FacultyDesignation = PROFESSOR | ASSOCIATE_PROFESSOR | ASSISTANT_PROFESSOR

datatype ExplanationLevel = INFO | WARNING | ERROR

datatype ExplanationSource = VALIDATOR | LAB_ALLOCATOR | SCHEDULER | WORKLOAD

record Subject =
  s_id :: string
  s_name :: string
  s_code :: string
  s_type :: SubjectType
  periodsPerWeek :: int
  s_departmentId :: string
  s_semester :: int

record SubBatch =
  sb_id :: string
  sb_name :: string
  studentCount :: int

record Batch =
  b_id :: string
  b_name :: string
  b_semester :: int
  b_departmentId :: string
  totalStudents :: int
  subBatches :: "SubBatch list"

record Faculty =
  f_id :: string
  f_name :: string
  designation :: FacultyDesignation
  assignedTheorySubjects :: "string list"
  assignedLabSubjects :: "string list"

record WorkloadLimit =
  lim_theoryPeriods :: rat
  lim_labSessions :: rat

record AcademicState =
  batches :: "Batch list"
  subjects :: "Subject list"
  faculty :: "Faculty list"

record Block =
  bl_id :: string
  bl_name :: string

record Department =
  d_id :: string
  d_name :: string

record Classroom =
  c_id :: string
  c_name :: string
  c_capacity :: int
  c_departmentId :: string

record Lab =
  l_id :: string
  l_name :: string
  l_capacity :: int
  l_departmentId :: string

record InfrastructureState =
  blocks :: "Block list"
  departments :: "Department list"
  classrooms :: "Classroom list"
  labs :: "Lab list"

record TimetableEntry =
  e_id :: string
  slotId :: string
  day :: Day
  period :: Period
  subjectId :: string
  facultyId :: string
  roomId :: string
  batchId :: string
  subBatchId :: "string option"
  isLabSession :: bool
  labSlot :: "LabSlotName option"
  createdAt :: int

record Timetable =
  t_id :: string
  t_batchId :: string
  t_entries :: "TimetableEntry list"
  generatedAt :: int
  isValid :: bool

record LabRotation =
  r_batchId :: string
  r_subBatchId :: string
  r_sessionNumber :: nat
  r_labId :: string

record Explanation =
  level :: ExplanationLevel
  source :: ExplanationSource
  message :: string
  relatedEntityId :: "string option"
  step :: "nat option"

record GenerationResult =
  success :: bool
  timetable :: "Timetable option"
  explanations :: "Explanation list"

text \<open>
  The identifier and clock source. \<open>uuidv4()\<close> and \<open>Date.now()\<close> are the only inputs
  of the engine that are not arguments; they are called once each, in this order,
  for every record the engine creates. The model makes them two streams indexed by
  the number of earlier calls in the run.
\<close>

record Env =
  uuidv4 :: "nat \<Rightarrow> string"
  now :: "nat \<Rightarrow> int"

section \<open>Number formatting in template strings\<close>

definition digit_char :: "nat \<Rightarrow> char" where
  "digit_char d = char_of (48 + d)"

fun show_nat :: "nat \<Rightarrow> string" where
  "show_nat n = (if n < 10 then [digit_char n]
                 else show_nat (n div 10) @ [digit_char (n mod 10)])"

declare show_nat.simps [simp del]

definition show_int :: "int \<Rightarrow> string" where
  "show_int i = (if i < 0 then CHR ''-'' # show_nat (nat (- i)) else show_nat (nat i))"

text \<open>A workload limit is an integer or an integer and a half.\<close>

definition show_limit :: "rat \<Rightarrow> string" where
  "show_limit r = (if of_int \<lfloor>r\<rfloor> = r then show_int \<lfloor>r\<rfloor> else show_int \<lfloor>r\<rfloor> @ ''.5'')"

definition show_slot :: "LabSlotName \<Rightarrow> string" where
  "show_slot s = (case s of SlotA \<Rightarrow> ''A'' | SlotB \<Rightarrow> ''B'')"

definition show_slot_opt :: "LabSlotName option \<Rightarrow> string" where
  "show_slot_opt s = (case s of None \<Rightarrow> ''undefined'' | Some x \<Rightarrow> show_slot x)"

definition show_designation :: "FacultyDesignation \<Rightarrow> string" where
  "show_designation d = (case d of PROFESSOR \<Rightarrow> ''PROFESSOR''
     | ASSOCIATE_PROFESSOR \<Rightarrow> ''ASSOCIATE_PROFESSOR''
     | ASSISTANT_PROFESSOR \<Rightarrow> ''ASSISTANT_PROFESSOR'')"

section \<open>Constants (src/constants)\<close>

definition LAB_SLOT_A :: "Period list" where "LAB_SLOT_A = [2, 3, 4]"
definition LAB_SLOT_B :: "Period list" where "LAB_SLOT_B = [5, 6, 7]"
definition WORKING_DAYS :: "Day list" where "WORKING_DAYS = [0, 1, 2, 3, 4, 5]"
definition MIN_LAB_SESSIONS_PER_WEEK :: nat where "MIN_LAB_SESSIONS_PER_WEEK = 2"

definition FACULTY_WORKLOAD_LIMITS :: "FacultyDesignation \<Rightarrow> WorkloadLimit" where
  "FACULTY_WORKLOAD_LIMITS d = (case d of
      PROFESSOR \<Rightarrow> \<lparr>lim_theoryPeriods = 5, lim_labSessions = 1\<rparr>
    | ASSOCIATE_PROFESSOR \<Rightarrow> \<lparr>lim_theoryPeriods = 5, lim_labSessions = 3 / 2\<rparr>
    | ASSISTANT_PROFESSOR \<Rightarrow> \<lparr>lim_theoryPeriods = 10, lim_labSessions = 2\<rparr>)"

section \<open>Workload calculator (src/engine/workloadCalculator.ts)\<close>

record WorkloadStats =
  ws_facultyId :: string
  ws_facultyName :: string
  ws_designation :: FacultyDesignation
  theoryPeriods :: nat
  theoryLimit :: rat
  labSessions :: nat
  labLimit :: rat
  isOverloaded :: bool

text \<open>The key \<open>`${e.day}-${e.labSlot}`\<close> that groups the entries of one lab session.\<close>

definition labSessionKey :: "TimetableEntry \<Rightarrow> string" where
  "labSessionKey e = show_nat (day e) @ ''-'' @ show_slot_opt (labSlot e)"

definition facultyStats :: "TimetableEntry list \<Rightarrow> Faculty \<Rightarrow> WorkloadStats" where
  "facultyStats entries f =
    (let limits = FACULTY_WORKLOAD_LIMITS (designation f);
         theoryEntries = filter (\<lambda>e. facultyId e = f_id f \<and> \<not> isLabSession e) entries;
         theoryPeriods = length theoryEntries;
         labEntries = filter (\<lambda>e. facultyId e = f_id f \<and> isLabSession e) entries;
         labSessionKeys = set (map labSessionKey labEntries);
         labSessions = card labSessionKeys
     in \<lparr>ws_facultyId = f_id f, ws_facultyName = f_name f, ws_designation = designation f,
         theoryPeriods = theoryPeriods, theoryLimit = lim_theoryPeriods limits,
         labSessions = labSessions, labLimit = lim_labSessions limits,
         isOverloaded = (of_nat theoryPeriods > lim_theoryPeriods limits
                         \<or> of_nat labSessions > lim_labSessions limits)\<rparr>)"

definition calculateWorkload ::
  "Faculty list \<Rightarrow> Subject list \<Rightarrow> TimetableEntry list \<Rightarrow> WorkloadStats list" where
  "calculateWorkload fs subs entries = map (facultyStats entries) (sort_key f_id fs)"

definition workloadExplanations :: "WorkloadStats \<Rightarrow> Explanation list" where
  "workloadExplanations stat =
    (if of_nat (theoryPeriods stat) > theoryLimit stat then
       [\<lparr>level = ERROR, source = WORKLOAD,
         message = ws_facultyName stat @ '' ('' @ show_designation (ws_designation stat)
           @ '') has '' @ show_nat (theoryPeriods stat) @ '' theory periods, exceeds limit of ''
           @ show_limit (theoryLimit stat) @ ''.'',
         relatedEntityId = Some (ws_facultyId stat), step = Some 8\<rparr>] else [])
    @ (if of_nat (labSessions stat) > labLimit stat then
       [\<lparr>level = ERROR, source = WORKLOAD,
         message = ws_facultyName stat @ '' ('' @ show_designation (ws_designation stat)
           @ '') has '' @ show_nat (labSessions stat) @ '' lab sessions, exceeds limit of ''
           @ show_limit (labLimit stat) @ ''.'',
         relatedEntityId = Some (ws_facultyId stat), step = Some 8\<rparr>] else [])
    @ (if \<not> isOverloaded stat then
       [\<lparr>level = INFO, source = WORKLOAD,
         message = ws_facultyName stat @ '': '' @ show_nat (theoryPeriods stat) @ ''/''
           @ show_limit (theoryLimit stat) @ '' theory, '' @ show_nat (labSessions stat)
           @ ''/'' @ show_limit (labLimit stat) @ '' labs.'',
         relatedEntityId = Some (ws_facultyId stat), step = Some 8\<rparr>] else [])"

definition validateWorkload ::
  "Faculty list \<Rightarrow> Subject list \<Rightarrow> TimetableEntry list \<Rightarrow> Explanation list" where
  "validateWorkload fs subs entries =
     concat (map workloadExplanations (calculateWorkload fs subs entries))"

definition hasWorkloadViolation ::
  "Faculty list \<Rightarrow> Subject list \<Rightarrow> TimetableEntry list \<Rightarrow> bool" where
  "hasWorkloadViolation fs subs entries =
     list_ex isOverloaded (calculateWorkload fs subs entries)"

section \<open>Sub-batch splitting (src/store/slices/academicSlice.ts)\<close>

text \<open>
  The \<open>for\<close> loop of \<open>calculateSubBatches\<close>; \<open>i\<close> counts the sub-batches pushed so
  far, which is also the number of identifiers drawn.
\<close>

function subBatchLoop ::
  "Env \<Rightarrow> nat \<Rightarrow> int \<Rightarrow> int \<Rightarrow> nat \<Rightarrow> int \<Rightarrow> SubBatch list \<Rightarrow> SubBatch list" where
  "subBatchLoop env n0 labCapacity numSubBatches i remainingStudents sbs =
    (if int i < numSubBatches then
       (let count = min labCapacity remainingStudents
        in subBatchLoop env n0 labCapacity numSubBatches (i + 1) (remainingStudents - count)
             (sbs @ [\<lparr>sb_id = uuidv4 env (n0 + i), sb_name = ''A'' @ show_nat (i + 1),
                       studentCount = count\<rparr>]))
     else sbs)"
  by pat_completeness auto
termination
  by (relation "measure (\<lambda>(env, n0, c, num, i, r, acc). nat (num - int i))") auto

declare subBatchLoop.simps [simp del]

text \<open>
  \<open>Math.ceil(totalStudents / labCapacity)\<close> is the exact ceiling on integers below
  \<open>2^53\<close>. With \<open>labCapacity = 0 < totalStudents\<close> the quotient is \<open>Infinity\<close> and
  the loop never ends: the model returns \<open>None\<close>.
\<close>

definition calculateSubBatches :: "Env \<Rightarrow> nat \<Rightarrow> int \<Rightarrow> int \<Rightarrow> SubBatch list option" where
  "calculateSubBatches env n0 nStudents labCapacity =
    (if labCapacity \<ge> nStudents then
       Some [\<lparr>sb_id = uuidv4 env n0, sb_name = ''A'', studentCount = nStudents\<rparr>]
     else if labCapacity = 0 then None
     else
       (let numSubBatches = \<lceil>(of_int nStudents :: rat) / of_int labCapacity\<rceil>
        in Some (subBatchLoop env n0 labCapacity numSubBatches 0 nStudents [])))"

section \<open>Validator (src/engine/validator.ts)\<close>

text \<open>An object literal of type \<open>Explanation\<close>.\<close>

definition explain ::
  "ExplanationLevel \<Rightarrow> ExplanationSource \<Rightarrow> string \<Rightarrow> string option \<Rightarrow> nat option
   \<Rightarrow> Explanation" where
  "explain lvl src msg rel stp =
     \<lparr>level = lvl, source = src, message = msg, relatedEntityId = rel, step = stp\<rparr>"

record ValidationResult =
  v_isValid :: bool
  v_explanations :: "Explanation list"

definition validateInfrastructure :: "InfrastructureState \<Rightarrow> Explanation list" where
  "validateInfrastructure st =
    (if blocks st = [] then
       [explain ERROR VALIDATOR ''No blocks defined. At least one block is required.''
          None (Some 1)] else [])
    @ (if departments st = [] then
       [explain ERROR VALIDATOR
          ''No departments defined. At least one department is required.'' None (Some 1)]
       else [])
    @ (if classrooms st = [] then
       [explain ERROR VALIDATOR
          ''No classrooms defined. At least one classroom is required.'' None (Some 1)]
       else [])
    @ concat (map (\<lambda>c. if c_capacity c \<le> 0 then
         [explain ERROR VALIDATOR
            (''Classroom \"'' @ c_name c @ ''\" has invalid capacity ('' @ show_int (c_capacity c)
              @ ''). Capacity must be > 0.'') (Some (c_id c)) (Some 1)] else [])
        (classrooms st))
    @ (if labs st = [] then
       [explain ERROR VALIDATOR ''No labs defined. At least one lab is required.''
          None (Some 1)] else [])
    @ concat (map (\<lambda>l. if l_capacity l \<le> 0 then
         [explain ERROR VALIDATOR
            (''Lab \"'' @ l_name l @ ''\" has invalid capacity ('' @ show_int (l_capacity l)
              @ ''). Capacity must be > 0.'') (Some (l_id l)) (Some 1)] else [])
        (labs st))"

definition validateAcademic :: "AcademicState \<Rightarrow> InfrastructureState \<Rightarrow> Explanation list" where
  "validateAcademic academic infrastructure =
    (if batches academic = [] then
       [explain ERROR VALIDATOR ''No batches defined. At least one batch is required.''
          None (Some 1)] else [])
    @ concat (map (\<lambda>batch.
        (if totalStudents batch \<le> 0 then
           [explain ERROR VALIDATOR
              (''Batch \"'' @ b_name batch @ ''\" has invalid student count (''
                @ show_int (totalStudents batch) @ '').'') (Some (b_id batch)) (Some 1)]
         else [])
        @ (case find (\<lambda>d. d_id d = b_departmentId batch) (departments infrastructure) of
             None \<Rightarrow>
               [explain ERROR VALIDATOR
                  (''Batch \"'' @ b_name batch @ ''\" references non-existent department.'')
                  (Some (b_id batch)) (Some 1)]
           | Some dept \<Rightarrow> []))
        (batches academic))
    @ (if subjects academic = [] then
       [explain ERROR VALIDATOR ''No subjects defined. At least one subject is required.''
          None (Some 1)] else [])
    @ (if filter (\<lambda>s. s_type s = LAB) (subjects academic) = [] then
       [explain WARNING VALIDATOR
          ''No lab subjects defined. Students need at least 2 lab sessions per week.''
          None (Some 1)] else [])
    @ (if faculty academic = [] then
       [explain ERROR VALIDATOR ''No faculty defined. At least one faculty is required.''
          None (Some 1)] else [])"

definition assignedTheoryLoad :: "Subject list \<Rightarrow> Faculty \<Rightarrow> int" where
  "assignedTheoryLoad subs f =
     foldl (\<lambda>acc subjId. case find (\<lambda>s. s_id s = subjId) subs of
                            Some subject \<Rightarrow> acc + periodsPerWeek subject
                          | None \<Rightarrow> acc)
       0 (assignedTheorySubjects f)"

definition validateFacultyWorkload :: "Faculty list \<Rightarrow> Subject list \<Rightarrow> Explanation list" where
  "validateFacultyWorkload fac subs =
    concat (map (\<lambda>f.
      (let limits = FACULTY_WORKLOAD_LIMITS (designation f);
           theoryCount = assignedTheoryLoad subs f;
           labCount = length (assignedLabSubjects f)
       in (if of_int theoryCount > lim_theoryPeriods limits then
             [explain ERROR WORKLOAD
                (f_name f @ '' ('' @ show_designation (designation f) @ '') has ''
                  @ show_int theoryCount @ '' theory periods assigned, exceeds limit of ''
                  @ show_limit (lim_theoryPeriods limits) @ ''.'') (Some (f_id f)) (Some 8)]
           else [])
        @ (if of_nat labCount > lim_labSessions limits then
             [explain ERROR WORKLOAD
                (f_name f @ '' ('' @ show_designation (designation f) @ '') has ''
                  @ show_nat labCount @ '' lab sessions assigned, exceeds limit of ''
                  @ show_limit (lim_labSessions limits) @ ''.'') (Some (f_id f)) (Some 8)]
           else []))) fac)"

definition validateSubjectAssignments :: "Subject list \<Rightarrow> Faculty list \<Rightarrow> Explanation list" where
  "validateSubjectAssignments subs fac =
    concat (map (\<lambda>subject.
      (let assigned =
             (if s_type subject = LAB
              then list_ex (\<lambda>f. s_id subject \<in> set (assignedLabSubjects f)) fac
              else list_ex (\<lambda>f. s_id subject \<in> set (assignedTheorySubjects f)) fac)
       in if \<not> assigned then
            [explain ERROR VALIDATOR
               (''Subject \"'' @ s_name subject @ ''\" ('' @ s_code subject
                 @ '') has no faculty assigned.'') (Some (s_id subject)) (Some 1)]
          else [])) subs)"

definition validateAll :: "InfrastructureState \<Rightarrow> AcademicState \<Rightarrow> ValidationResult" where
  "validateAll infrastructure academic =
    (let expls = validateInfrastructure infrastructure
           @ validateAcademic academic infrastructure
           @ (if subjects academic \<noteq> [] \<and> faculty academic \<noteq> []
              then validateSubjectAssignments (subjects academic) (faculty academic) else [])
           @ (if faculty academic \<noteq> [] \<and> subjects academic \<noteq> []
              then validateFacultyWorkload (faculty academic) (subjects academic) else []);
         hasErrors = list_ex (\<lambda>e. level e = ERROR) expls
     in \<lparr>v_isValid = \<not> hasErrors, v_explanations = expls\<rparr>)"

section \<open>Lab allocator (src/engine/labAllocator.ts)\<close>

definition isFacultyAvailableForSlot ::
  "TimetableEntry list \<Rightarrow> string \<Rightarrow> Day \<Rightarrow> Period list \<Rightarrow> bool" where
  "isFacultyAvailableForSlot entries fid d periods =
     (\<not> list_ex (\<lambda>p. list_ex (\<lambda>e. facultyId e = fid \<and> day e = d \<and> period e = p) entries)
          periods)"

record LabAllocationResult =
  lr_entries :: "TimetableEntry list"
  lr_rotations :: "LabRotation list"
  lr_explanations :: "Explanation list"
  lr_success :: bool

record LabSession =
  ls_day :: Day
  ls_slot :: LabSlotName
  ls_periods :: "Period list"

definition slotUsed :: "TimetableEntry list \<Rightarrow> string \<Rightarrow> Day \<Rightarrow> Period list \<Rightarrow> bool" where
  "slotUsed existing bid d periods =
     list_ex (\<lambda>p. list_ex (\<lambda>e. batchId e = bid \<and> day e = d \<and> period e = p) existing) periods"

definition getAvailableLabSlots :: "TimetableEntry list \<Rightarrow> string \<Rightarrow> LabSession list" where
  "getAvailableLabSlots existing bid =
     concat (map (\<lambda>d.
         (if \<not> slotUsed existing bid d LAB_SLOT_A
          then [\<lparr>ls_day = d, ls_slot = SlotA, ls_periods = LAB_SLOT_A\<rparr>] else [])
       @ (if \<not> slotUsed existing bid d LAB_SLOT_B
          then [\<lparr>ls_day = d, ls_slot = SlotB, ls_periods = LAB_SLOT_B\<rparr>] else []))
       (sort WORKING_DAYS))"

text \<open>The key \<open>`${s.day}-${s.slot}`\<close> of the set \<open>usedSlots\<close>.\<close>

definition slotKey :: "LabSession \<Rightarrow> string" where
  "slotKey s = show_nat (ls_day s) @ ''-'' @ show_slot (ls_slot s)"

text \<open>\<open>Array.prototype.findIndex\<close>: the first index that satisfies, or \<open>-1\<close>.\<close>

fun findIndex :: "('a \<Rightarrow> bool) \<Rightarrow> 'a list \<Rightarrow> int" where
  "findIndex P [] = - 1"
| "findIndex P (x # xs) =
     (if P x then 0 else (let r = findIndex P xs in if r < 0 then - 1 else r + 1))"

text \<open>
  The mutable variables of \<open>allocateLabsForBatch\<close>. The number of identifiers drawn
  so far in the call is the number of entries pushed so far.
\<close>

record LabState =
  la_entries :: "TimetableEntry list"
  la_rotations :: "LabRotation list"
  la_explanations :: "Explanation list"
  la_sessionNumber :: nat
  la_usedSlots :: "string set"
  la_subjectIndex :: nat

definition labEntry ::
  "Env \<Rightarrow> nat \<Rightarrow> LabSession \<Rightarrow> Period \<Rightarrow> string \<Rightarrow> string \<Rightarrow> string \<Rightarrow> string
   \<Rightarrow> string option \<Rightarrow> TimetableEntry" where
  "labEntry env k slot p subjId facId labId' batId subBatId =
     \<lparr>e_id = uuidv4 env k, slotId = show_nat (ls_day slot) @ ''-'' @ show_nat p,
      day = ls_day slot, period = p, subjectId = subjId, facultyId = facId, roomId = labId',
      batchId = batId, subBatchId = subBatId, isLabSession = True,
      labSlot = Some (ls_slot slot), createdAt = now env k\<rparr>"

text \<open>\<open>slot.periods.forEach(period => entries.push({...}))\<close>\<close>

definition pushLabEntries ::
  "Env \<Rightarrow> nat \<Rightarrow> LabSession \<Rightarrow> string \<Rightarrow> string \<Rightarrow> string \<Rightarrow> string \<Rightarrow> string option
   \<Rightarrow> TimetableEntry list \<Rightarrow> TimetableEntry list" where
  "pushLabEntries env n0 slot subjId facId labId' batId subBatId entries =
     foldl (\<lambda>es p. es @ [labEntry env (n0 + length es) slot p subjId facId labId' batId subBatId])
       entries (ls_periods slot)"

text \<open>The body of \<open>sortedSubBatches.forEach((subBatch, subBatchIndex) => ...)\<close>.\<close>

definition placeSubBatch ::
  "Env \<Rightarrow> nat \<Rightarrow> Batch \<Rightarrow> Subject \<Rightarrow> Lab list \<Rightarrow> Faculty list \<Rightarrow> TimetableEntry list
   \<Rightarrow> LabRotation list \<Rightarrow> LabSession \<Rightarrow> LabState \<Rightarrow> SubBatch \<times> nat \<Rightarrow> LabState" where
  "placeSubBatch env n0 batch subject deptLabs labFaculty existing existingRotations slot st sbi =
    (let subBatch = fst sbi; subBatchIndex = snd sbi;
         previousRotation =
           find (\<lambda>r. r_batchId r = b_id batch \<and> r_subBatchId r = sb_id subBatch)
             existingRotations;
         labIndex = (case previousRotation of
             Some prev \<Rightarrow>
               nat ((findIndex (\<lambda>l. l_id l = r_labId prev) deptLabs + 1)
                    mod int (length deptLabs))
           | None \<Rightarrow> subBatchIndex mod length deptLabs);
         lab = deptLabs ! labIndex;
         candidateFaculty = labFaculty ! (subBatchIndex mod length labFaculty);
         currentEntriesForCheck = existing @ la_entries st;
         assignedFaculty =
           (if isFacultyAvailableForSlot currentEntriesForCheck (f_id candidateFaculty)
                 (ls_day slot) (ls_periods slot)
            then Some candidateFaculty
            else find (\<lambda>f. isFacultyAvailableForSlot currentEntriesForCheck (f_id f)
                             (ls_day slot) (ls_periods slot)) labFaculty)
     in case assignedFaculty of
          None \<Rightarrow>
            st\<lparr>la_explanations := la_explanations st @
              [explain WARNING LAB_ALLOCATOR
                 (''No available faculty for '' @ s_name subject @ '' sub-batch ''
                   @ sb_name subBatch @ '' at Slot '' @ show_slot (ls_slot slot) @ '', Day ''
                   @ show_nat (ls_day slot + 1) @ ''.'') (Some (s_id subject)) (Some 3)]\<rparr>
        | Some af \<Rightarrow>
            st\<lparr>la_entries := pushLabEntries env n0 slot (s_id subject) (f_id af) (l_id lab)
                               (b_id batch) (Some (sb_id subBatch)) (la_entries st),
               la_rotations := la_rotations st @
                 [\<lparr>r_batchId = b_id batch, r_subBatchId = sb_id subBatch,
                   r_sessionNumber = la_sessionNumber st, r_labId = l_id lab\<rparr>],
               la_explanations := la_explanations st @
                 [explain INFO LAB_ALLOCATOR
                    (''Allocated '' @ s_name subject @ '' for '' @ b_name batch @ ''-''
                      @ sb_name subBatch @ '' in '' @ l_name lab @ '' (Slot ''
                      @ show_slot (ls_slot slot) @ '', Day '' @ show_nat (ls_day slot + 1)
                      @ '').'') (Some (b_id batch)) (Some 3)]\<rparr>)"

text \<open>The single-sub-batch branch: first department lab, first lab faculty.\<close>

definition placeWholeBatch ::
  "Env \<Rightarrow> nat \<Rightarrow> Batch \<Rightarrow> Subject \<Rightarrow> Lab list \<Rightarrow> Faculty list \<Rightarrow> LabSession \<Rightarrow> LabState
   \<Rightarrow> LabState" where
  "placeWholeBatch env n0 batch subject deptLabs labFaculty slot st =
    (let lab = deptLabs ! 0; assignedFaculty = labFaculty ! 0
     in st\<lparr>la_entries := pushLabEntries env n0 slot (s_id subject) (f_id assignedFaculty)
                            (l_id lab) (b_id batch) None (la_entries st),
            la_explanations := la_explanations st @
              [explain INFO LAB_ALLOCATOR
                 (''Allocated '' @ s_name subject @ '' for '' @ b_name batch @ '' in ''
                   @ l_name lab @ '' (Slot '' @ show_slot (ls_slot slot) @ '', Day ''
                   @ show_nat (ls_day slot + 1) @ '').'') (Some (b_id batch)) (Some 3)]\<rparr>)"

datatype 'a LoopStep = Continue 'a | Break 'a

text \<open>
  One pass through the \<open>while\<close> loop of \<open>allocateLabsForBatch\<close>, from the test of
  the loop condition: \<open>Break\<close> leaves the loop (condition false or \<open>break\<close>),
  \<open>Continue\<close> goes round again (\<open>continue\<close> or the end of the body).
\<close>

definition labIteration ::
  "Env \<Rightarrow> nat \<Rightarrow> Batch \<Rightarrow> Subject list \<Rightarrow> Lab list \<Rightarrow> Faculty list \<Rightarrow> TimetableEntry list
   \<Rightarrow> LabRotation list \<Rightarrow> LabState \<Rightarrow> LabState LoopStep" where
  "labIteration env n0 batch sortedLabSubjects deptLabs fac existing existingRotations st =
    (if \<not> (la_subjectIndex st < length sortedLabSubjects
            \<and> la_sessionNumber st < max (length sortedLabSubjects) MIN_LAB_SESSIONS_PER_WEEK)
     then Break st
     else
      (let currentEntries = existing @ la_entries st;
           availableSlots = getAvailableLabSlots currentEntries (b_id batch)
       in case find (\<lambda>s. slotKey s \<notin> la_usedSlots st) availableSlots of
            None \<Rightarrow> Break st
          | Some slot \<Rightarrow>
             (let st1 = st\<lparr>la_usedSlots := insert (slotKey slot) (la_usedSlots st)\<rparr>;
                  subject = sortedLabSubjects
                              ! (la_subjectIndex st mod length sortedLabSubjects);
                  labFaculty = sort_key f_id
                     (filter (\<lambda>f. s_id subject \<in> set (assignedLabSubjects f)) fac)
              in if labFaculty = [] then
                   Continue (st1\<lparr>la_explanations := la_explanations st1 @
                     [explain ERROR LAB_ALLOCATOR
                        (''No faculty assigned to lab subject \"'' @ s_name subject @ ''\".'')
                        (Some (s_id subject)) (Some 3)]\<rparr>)
                 else
                  (let st2 =
                        (if length (subBatches batch) > 1 then
                           (let sortedSubBatches = sort_key sb_id (subBatches batch)
                            in foldl (placeSubBatch env n0 batch subject deptLabs labFaculty
                                        existing existingRotations slot) st1
                                 (zip sortedSubBatches [0 ..< length sortedSubBatches]))
                         else placeWholeBatch env n0 batch subject deptLabs labFaculty slot st1);
                       st3 = st2\<lparr>la_sessionNumber := la_sessionNumber st2 + 1,
                                 la_subjectIndex := la_subjectIndex st2 + 1\<rparr>
                   in if la_sessionNumber st3 \<ge> MIN_LAB_SESSIONS_PER_WEEK
                         \<and> la_subjectIndex st3 \<ge> length sortedLabSubjects
                      then Break st3 else Continue st3))))"

text \<open>
  The \<open>while\<close> loop. Every pass that goes round again has put a new key into
  \<open>usedSlots\<close>, and there are twelve keys.
\<close>

function labLoop ::
  "Env \<Rightarrow> nat \<Rightarrow> Batch \<Rightarrow> Subject list \<Rightarrow> Lab list \<Rightarrow> Faculty list \<Rightarrow> TimetableEntry list
   \<Rightarrow> LabRotation list \<Rightarrow> LabState \<Rightarrow> LabState" where
  "labLoop env n0 batch subs deptLabs fac existing rots st =
    (case labIteration env n0 batch subs deptLabs fac existing rots st of
       Break st' \<Rightarrow> st'
     | Continue st' \<Rightarrow> labLoop env n0 batch subs deptLabs fac existing rots st')"
  by pat_completeness auto
termination
proof (relation "measure (\<lambda>(env, n0, batch, subs, deptLabs, fac, existing, rots, st).
          card (slotKey ` set (getAvailableLabSlots [] []) - la_usedSlots st))")
  show "wf (measure (\<lambda>(env, n0, batch, subs, deptLabs, fac, existing, rots, st).
          card (slotKey ` set (getAvailableLabSlots [] []) - la_usedSlots st)))"
    by simp
next
  fix env n0 batch subs deptLabs fac existing rots and st st' :: LabState
  assume it: "labIteration env n0 batch subs deptLabs fac existing rots st = Continue st'"
  let ?A = "slotKey ` set (getAvailableLabSlots [] [])"
  have all_slots: "set (getAvailableLabSlots es bid) \<subseteq> set (getAvailableLabSlots [] [])"
    for es bid
    by (auto simp: getAvailableLabSlots_def slotUsed_def list_ex_iff)
  have sub_used: "la_usedSlots (placeSubBatch env n0 batch subject deptLabs labFaculty existing
                                  rots slot s sbi) = la_usedSlots s"
    for subject labFaculty slot sbi and s :: LabState
    by (simp add: placeSubBatch_def Let_def split: option.splits)
  have fold_used: "la_usedSlots (foldl (placeSubBatch env n0 batch subject deptLabs labFaculty
                                          existing rots slot) s xs) = la_usedSlots s"
    for subject labFaculty slot xs and s :: LabState
    by (induction xs arbitrary: s) (simp_all add: sub_used)
  have whole_used: "la_usedSlots (placeWholeBatch env n0 batch subject deptLabs labFaculty slot s)
                    = la_usedSlots s"
    for subject labFaculty slot and s :: LabState
    by (simp add: placeWholeBatch_def Let_def)
  from it obtain slot where
    f: "find (\<lambda>s. slotKey s \<notin> la_usedSlots st)
          (getAvailableLabSlots (existing @ la_entries st) (b_id batch)) = Some slot"
    by (auto simp: labIteration_def Let_def split: if_splits option.splits)
  then have mem: "slot \<in> set (getAvailableLabSlots (existing @ la_entries st) (b_id batch))"
    and fresh: "slotKey slot \<notin> la_usedSlots st"
    by (auto simp: find_Some_iff)
  from it f have upd: "la_usedSlots st' = insert (slotKey slot) (la_usedSlots st)"
    by (auto simp: labIteration_def Let_def fold_used whole_used split: if_splits)
  from mem all_slots have "slotKey slot \<in> ?A" by blast
  with fresh have k: "slotKey slot \<in> ?A - la_usedSlots st" by simp
  have eq: "?A - la_usedSlots st' = (?A - la_usedSlots st) - {slotKey slot}"
    using upd by auto
  have fin: "finite (?A - la_usedSlots st)" by simp
  have "card ((?A - la_usedSlots st) - {slotKey slot}) < card (?A - la_usedSlots st)"
    using fin k by (rule card_Diff1_less)
  with eq have "card (?A - la_usedSlots st') < card (?A - la_usedSlots st)"
    by simp
  then show "((env, n0, batch, subs, deptLabs, fac, existing, rots, st'),
              (env, n0, batch, subs, deptLabs, fac, existing, rots, st))
        \<in> measure (\<lambda>(env, n0, batch, subs, deptLabs, fac, existing, rots, st).
          card (slotKey ` set (getAvailableLabSlots [] []) - la_usedSlots st))"
    by simp
qed

declare labLoop.simps [simp del]

definition allocateLabsForBatch ::
  "Env \<Rightarrow> nat \<Rightarrow> Batch \<Rightarrow> Subject list \<Rightarrow> Lab list \<Rightarrow> Faculty list \<Rightarrow> TimetableEntry list
   \<Rightarrow> LabRotation list \<Rightarrow> LabAllocationResult" where
  "allocateLabsForBatch env n0 batch labSubjects labList fac existing existingRotations =
    (let sortedLabSubjects = sort_key s_id
           (filter (\<lambda>s. s_departmentId s = b_departmentId batch
                        \<and> s_semester s = b_semester batch) labSubjects)
     in if length sortedLabSubjects = 0 then
          \<lparr>lr_entries = [], lr_rotations = [],
           lr_explanations =
             [explain ERROR LAB_ALLOCATOR
                (''No lab subjects found for batch \"'' @ b_name batch @ ''\".'')
                (Some (b_id batch)) (Some 3)],
           lr_success = False\<rparr>
        else
         (let deptLabs = sort_key l_id
                (filter (\<lambda>l. l_departmentId l = b_departmentId batch) labList)
          in if length deptLabs = 0 then
               \<lparr>lr_entries = [], lr_rotations = [],
                lr_explanations =
                  [explain ERROR LAB_ALLOCATOR
                     (''No labs available for batch \"'' @ b_name batch
                       @ ''\" in its department.'') (Some (b_id batch)) (Some 3)],
                lr_success = False\<rparr>
             else
              (let combinedEntries = existing @ [];
                   availableSlots = getAvailableLabSlots combinedEntries (b_id batch)
               in if length availableSlots < MIN_LAB_SESSIONS_PER_WEEK then
                    \<lparr>lr_entries = [], lr_rotations = [],
                     lr_explanations =
                       [explain ERROR LAB_ALLOCATOR
                          (''Not enough lab slots available for batch \"'' @ b_name batch
                            @ ''\". Need '' @ show_nat MIN_LAB_SESSIONS_PER_WEEK @ '', found ''
                            @ show_nat (length availableSlots) @ ''.'')
                          (Some (b_id batch)) (Some 3)],
                     lr_success = False\<rparr>
                  else
                   (let st = labLoop env n0 batch sortedLabSubjects deptLabs fac existing
                               existingRotations
                               \<lparr>la_entries = [], la_rotations = [], la_explanations = [],
                                la_sessionNumber = 0, la_usedSlots = {}, la_subjectIndex = 0\<rparr>
                    in if la_sessionNumber st < MIN_LAB_SESSIONS_PER_WEEK then
                         \<lparr>lr_entries = la_entries st, lr_rotations = la_rotations st,
                          lr_explanations = la_explanations st @
                            [explain ERROR LAB_ALLOCATOR
                               (''Could only allocate '' @ show_nat (la_sessionNumber st)
                                 @ '' lab sessions for batch \"'' @ b_name batch
                                 @ ''\". Minimum required: ''
                                 @ show_nat MIN_LAB_SESSIONS_PER_WEEK @ ''.'')
                               (Some (b_id batch)) (Some 3)],
                          lr_success = False\<rparr>
                       else
                         \<lparr>lr_entries = la_entries st, lr_rotations = la_rotations st,
                          lr_explanations = la_explanations st, lr_success = True\<rparr>))))"

section \<open>Scheduler (src/engine/scheduler.ts)\<close>

definition isSlotAvailable :: "TimetableEntry list \<Rightarrow> string \<Rightarrow> Day \<Rightarrow> Period \<Rightarrow> bool" where
  "isSlotAvailable entries bid d p =
     (\<not> list_ex (\<lambda>e. batchId e = bid \<and> day e = d \<and> period e = p) entries)"

definition isFacultyAvailable :: "TimetableEntry list \<Rightarrow> string \<Rightarrow> Day \<Rightarrow> Period \<Rightarrow> bool" where
  "isFacultyAvailable entries fid d p =
     (\<not> list_ex (\<lambda>e. facultyId e = fid \<and> day e = d \<and> period e = p) entries)"

definition isRoomAvailable :: "TimetableEntry list \<Rightarrow> string \<Rightarrow> Day \<Rightarrow> Period \<Rightarrow> bool" where
  "isRoomAvailable entries rid d p =
     (\<not> list_ex (\<lambda>e. roomId e = rid \<and> day e = d \<and> period e = p) entries)"

definition placeTheoryEntry ::
  "Env \<Rightarrow> nat \<Rightarrow> Batch \<Rightarrow> Subject \<Rightarrow> string \<Rightarrow> string \<Rightarrow> Day \<Rightarrow> Period \<Rightarrow> TimetableEntry" where
  "placeTheoryEntry env k batch subject facId classroomId d p =
     \<lparr>e_id = uuidv4 env k, slotId = show_nat d @ ''-'' @ show_nat p, day = d, period = p,
      subjectId = s_id subject, facultyId = facId, roomId = classroomId,
      batchId = b_id batch, subBatchId = None, isLabSession = False, labSlot = None,
      createdAt = now env k\<rparr>"

text \<open>The pair \<open>{ entries, explanations }\<close> that each placement phase builds and returns.\<close>

record Placement =
  pl_entries :: "TimetableEntry list"
  pl_explanations :: "Explanation list"

definition scopedSubjects :: "SubjectType \<Rightarrow> Batch \<Rightarrow> Subject list \<Rightarrow> Subject list" where
  "scopedSubjects ty batch subs =
     sort_key s_id (filter (\<lambda>s. s_type s = ty \<and> s_departmentId s = b_departmentId batch
                                \<and> s_semester s = b_semester batch) subs)"

definition theoryFacultyOf :: "Faculty list \<Rightarrow> Subject \<Rightarrow> Faculty list" where
  "theoryFacultyOf fac subject =
     sort_key f_id (filter (\<lambda>f. s_id subject \<in> set (assignedTheorySubjects f)) fac)"

subsection \<open>Step 4: mandatory subjects\<close>

definition mandatoryStep ::
  "Env \<Rightarrow> nat \<Rightarrow> Batch \<Rightarrow> Faculty list \<Rightarrow> Classroom list \<Rightarrow> TimetableEntry list
   \<Rightarrow> Placement \<Rightarrow> Subject \<times> nat \<Rightarrow> Placement" where
  "mandatoryStep env n0 batch fac rooms existing acc si =
    (let subject = fst si; index = snd si; allowedDays = [0, 1 :: nat]; p = (3 :: nat)
     in if index \<ge> length allowedDays then
          acc\<lparr>pl_explanations := pl_explanations acc @
            [explain WARNING SCHEDULER
               (''Cannot place mandatory subject \"'' @ s_name subject
                 @ ''\" - no available slots (Period 3, Mon/Tue).'')
               (Some (s_id subject)) (Some 4)]\<rparr>
        else
         (let d = allowedDays ! index; combinedEntries = existing @ pl_entries acc
          in if \<not> isSlotAvailable combinedEntries (b_id batch) d p then
               acc\<lparr>pl_explanations := pl_explanations acc @
                 [explain WARNING SCHEDULER
                    (''Slot for mandatory \"'' @ s_name subject @ ''\" (Day ''
                      @ show_nat (d + 1) @ '', Period 3) is occupied.'')
                    (Some (s_id subject)) (Some 4)]\<rparr>
             else
              (case theoryFacultyOf fac subject of
                 [] \<Rightarrow>
                   acc\<lparr>pl_explanations := pl_explanations acc @
                     [explain ERROR SCHEDULER
                        (''No faculty assigned to mandatory subject \"'' @ s_name subject
                          @ ''\".'') (Some (s_id subject)) (Some 4)]\<rparr>
               | assignedFaculty # rest \<Rightarrow>
                   if \<not> isFacultyAvailable combinedEntries (f_id assignedFaculty) d p then
                     acc\<lparr>pl_explanations := pl_explanations acc @
                       [explain WARNING SCHEDULER
                          (''Faculty \"'' @ f_name assignedFaculty
                            @ ''\" is unavailable for mandatory \"'' @ s_name subject
                            @ ''\" (Day '' @ show_nat (d + 1) @ '', Period 3).'')
                          (Some (s_id subject)) (Some 4)]\<rparr>
                   else
                    (case find (\<lambda>c. isRoomAvailable combinedEntries (c_id c) d p)
                            (sort_key c_id
                               (filter (\<lambda>c. c_departmentId c = b_departmentId batch
                                            \<and> c_capacity c \<ge> totalStudents batch) rooms)) of
                       None \<Rightarrow>
                         acc\<lparr>pl_explanations := pl_explanations acc @
                           [explain ERROR SCHEDULER
                              (''No available classroom with sufficient capacity for batch \"''
                                @ b_name batch @ ''\" at Day '' @ show_nat (d + 1)
                                @ '', Period 3.'') (Some (b_id batch)) (Some 4)]\<rparr>
                     | Some classroom \<Rightarrow>
                         \<lparr>pl_entries = pl_entries acc @
                            [placeTheoryEntry env (n0 + length (pl_entries acc)) batch subject
                               (f_id assignedFaculty) (c_id classroom) d p],
                          pl_explanations = pl_explanations acc @
                            [explain INFO SCHEDULER
                               (''Placed mandatory \"'' @ s_name subject @ ''\" on Day ''
                                 @ show_nat (d + 1) @ '', Period 3.'')
                               (Some (s_id subject)) (Some 4)]\<rparr>))))"

definition placeMandatorySubjects ::
  "Env \<Rightarrow> nat \<Rightarrow> Batch \<Rightarrow> Subject list \<Rightarrow> Faculty list \<Rightarrow> Classroom list
   \<Rightarrow> TimetableEntry list \<Rightarrow> Placement" where
  "placeMandatorySubjects env n0 batch subs fac rooms existing =
    (let mandatorySubjects = scopedSubjects MANDATORY batch subs
     in foldl (mandatoryStep env n0 batch fac rooms existing)
          \<lparr>pl_entries = [], pl_explanations = []\<rparr>
          (zip mandatorySubjects [0 ..< length mandatorySubjects]))"

subsection \<open>Step 5: theory subjects, round robin\<close>

definition theoryPeriodList :: "Period list" where
  "theoryPeriodList = [2, 4, 5, 6, 7]"

text \<open>The variables of the inner \<open>while\<close> loop.\<close>

record TheoryLoop =
  tl_entries :: "TimetableEntry list"
  tl_placedCount :: nat
  tl_periodIndex :: nat
  tl_dayIndex :: nat
  tl_attempts :: nat

definition theoryLoopBody ::
  "Env \<Rightarrow> nat \<Rightarrow> Batch \<Rightarrow> Subject \<Rightarrow> string \<Rightarrow> string \<Rightarrow> TimetableEntry list \<Rightarrow> TheoryLoop
   \<Rightarrow> TheoryLoop" where
  "theoryLoopBody env n0 batch subject facId classroomId existing st =
    (let sortedDays = sort WORKING_DAYS;
         d = sortedDays ! (tl_dayIndex st mod length sortedDays);
         p = theoryPeriodList ! (tl_periodIndex st mod length theoryPeriodList);
         combinedEntries = existing @ tl_entries st;
         st1 = (if isSlotAvailable combinedEntries (b_id batch) d p
                   \<and> isFacultyAvailable combinedEntries facId d p
                   \<and> isRoomAvailable combinedEntries classroomId d p
                then st\<lparr>tl_entries := tl_entries st @
                           [placeTheoryEntry env (n0 + length (tl_entries st)) batch subject
                              facId classroomId d p],
                        tl_placedCount := tl_placedCount st + 1,
                        tl_dayIndex := tl_dayIndex st + 1\<rparr>
                else st);
         st2 = st1\<lparr>tl_periodIndex := tl_periodIndex st1 + 1\<rparr>;
         st3 = (if tl_periodIndex st2 mod length theoryPeriodList = 0
                then st2\<lparr>tl_dayIndex := tl_dayIndex st2 + 1\<rparr> else st2)
     in st3\<lparr>tl_attempts := tl_attempts st3 + 1\<rparr>)"

function theoryLoop ::
  "Env \<Rightarrow> nat \<Rightarrow> Batch \<Rightarrow> Subject \<Rightarrow> string \<Rightarrow> string \<Rightarrow> TimetableEntry list \<Rightarrow> int \<Rightarrow> nat
   \<Rightarrow> TheoryLoop \<Rightarrow> TheoryLoop" where
  "theoryLoop env n0 batch subject facId classroomId existing periodsToPlace maxAttempts st =
    (if int (tl_placedCount st) < periodsToPlace \<and> tl_attempts st < maxAttempts
     then theoryLoop env n0 batch subject facId classroomId existing periodsToPlace maxAttempts
            (theoryLoopBody env n0 batch subject facId classroomId existing st)
     else st)"
  by pat_completeness auto
termination
  by (relation "measure (\<lambda>(env, n0, batch, subject, facId, classroomId, existing,
                           periodsToPlace, maxAttempts, st). maxAttempts - tl_attempts st)")
     (auto simp: theoryLoopBody_def Let_def)

declare theoryLoop.simps [simp del]

text \<open>
  The variables that \<open>distributeTheorySubjects\<close> carries from one subject to the
  next: the entries and explanations so far and \<open>globalDayIndex\<close>.
\<close>

record TheoryState =
  th_entries :: "TimetableEntry list"
  th_explanations :: "Explanation list"
  th_globalDayIndex :: nat

definition theorySubjectStep ::
  "Env \<Rightarrow> nat \<Rightarrow> Batch \<Rightarrow> Faculty list \<Rightarrow> Classroom list \<Rightarrow> TimetableEntry list
   \<Rightarrow> TheoryState \<Rightarrow> Subject \<Rightarrow> TheoryState" where
  "theorySubjectStep env n0 batch fac rooms existing ts subject =
    (let periodsToPlace = periodsPerWeek subject
     in case theoryFacultyOf fac subject of
          [] \<Rightarrow>
            ts\<lparr>th_explanations := th_explanations ts @
              [explain ERROR SCHEDULER
                 (''No faculty assigned to theory subject \"'' @ s_name subject @ ''\".'')
                 (Some (s_id subject)) (Some 5)]\<rparr>
        | assignedFaculty # rest \<Rightarrow>
           (case sort_key c_id
                   (filter (\<lambda>c. c_departmentId c = b_departmentId batch
                                \<and> c_capacity c \<ge> totalStudents batch) rooms) of
              [] \<Rightarrow> ts
            | classroom # rest' \<Rightarrow>
               (let maxAttempts = length (sort WORKING_DAYS) * length theoryPeriodList * 2;
                    st = theoryLoop env n0 batch subject (f_id assignedFaculty)
                           (c_id classroom) existing periodsToPlace maxAttempts
                           \<lparr>tl_entries = th_entries ts, tl_placedCount = 0,
                            tl_periodIndex = 0, tl_dayIndex = th_globalDayIndex ts,
                            tl_attempts = 0\<rparr>
                in \<lparr>th_entries = tl_entries st,
                    th_explanations = th_explanations ts @
                      [if int (tl_placedCount st) < periodsToPlace then
                         explain WARNING SCHEDULER
                           (''Could only place '' @ show_nat (tl_placedCount st) @ ''/''
                             @ show_int periodsToPlace @ '' periods for \"''
                             @ s_name subject @ ''\".'') (Some (s_id subject)) (Some 5)
                       else
                         explain INFO SCHEDULER
                           (''Placed '' @ show_nat (tl_placedCount st)
                             @ '' periods for theory \"'' @ s_name subject @ ''\".'')
                           (Some (s_id subject)) (Some 5)],
                    th_globalDayIndex = tl_dayIndex st\<rparr>)))"

definition distributeTheorySubjects ::
  "Env \<Rightarrow> nat \<Rightarrow> Batch \<Rightarrow> Subject list \<Rightarrow> Faculty list \<Rightarrow> Classroom list
   \<Rightarrow> TimetableEntry list \<Rightarrow> Placement" where
  "distributeTheorySubjects env n0 batch subs fac rooms existing =
    (let theorySubjects = scopedSubjects THEORY batch subs;
         ts = foldl (theorySubjectStep env n0 batch fac rooms existing)
                \<lparr>th_entries = [], th_explanations = [], th_globalDayIndex = 0\<rparr>
                theorySubjects
     in \<lparr>pl_entries = th_entries ts, pl_explanations = th_explanations ts\<rparr>)"

subsection \<open>Step 6: open electives\<close>

definition electiveStep ::
  "Env \<Rightarrow> nat \<Rightarrow> Batch \<Rightarrow> Faculty list \<Rightarrow> Classroom list \<Rightarrow> TimetableEntry list
   \<Rightarrow> Placement \<Rightarrow> Subject \<times> nat \<Rightarrow> Placement" where
  "electiveStep env n0 batch fac rooms existing acc si =
    (let subject = fst si; index = snd si; allowedDays = [0, 1, 2 :: nat]; p = (1 :: nat)
     in if index \<ge> length allowedDays then
          acc\<lparr>pl_explanations := pl_explanations acc @
            [explain WARNING SCHEDULER
               (''Cannot place open elective \"'' @ s_name subject
                 @ ''\" - no available slots (Period 1, Mon-Wed).'')
               (Some (s_id subject)) (Some 6)]\<rparr>
        else
         (let d = allowedDays ! index; combinedEntries = existing @ pl_entries acc
          in if \<not> isSlotAvailable combinedEntries (b_id batch) d p then
               acc\<lparr>pl_explanations := pl_explanations acc @
                 [explain WARNING SCHEDULER
                    (''Slot for open elective \"'' @ s_name subject @ ''\" (Day ''
                      @ show_nat (d + 1) @ '', Period 1) is occupied.'')
                    (Some (s_id subject)) (Some 6)]\<rparr>
             else
              (case theoryFacultyOf fac subject of
                 [] \<Rightarrow> acc
               | assignedFaculty # rest \<Rightarrow>
                   if \<not> isFacultyAvailable combinedEntries (f_id assignedFaculty) d p then
                     acc\<lparr>pl_explanations := pl_explanations acc @
                       [explain WARNING SCHEDULER
                          (''Faculty unavailable for open elective \"'' @ s_name subject
                            @ ''\" (Day '' @ show_nat (d + 1) @ '', Period 1).'')
                          (Some (s_id subject)) (Some 6)]\<rparr>
                   else
                    (case find (\<lambda>c. isRoomAvailable combinedEntries (c_id c) d p)
                            (sort_key c_id
                               (filter (\<lambda>c. c_departmentId c = b_departmentId batch) rooms)) of
                       None \<Rightarrow> acc
                     | Some classroom \<Rightarrow>
                         \<lparr>pl_entries = pl_entries acc @
                            [placeTheoryEntry env (n0 + length (pl_entries acc)) batch subject
                               (f_id assignedFaculty) (c_id classroom) d p],
                          pl_explanations = pl_explanations acc @
                            [explain INFO SCHEDULER
                               (''Placed open elective \"'' @ s_name subject @ ''\" on Day ''
                                 @ show_nat (d + 1) @ '', Period 1.'')
                               (Some (s_id subject)) (Some 6)]\<rparr>))))"

definition placeOpenElectives ::
  "Env \<Rightarrow> nat \<Rightarrow> Batch \<Rightarrow> Subject list \<Rightarrow> Faculty list \<Rightarrow> Classroom list
   \<Rightarrow> TimetableEntry list \<Rightarrow> Placement" where
  "placeOpenElectives env n0 batch subs fac rooms existing =
    (let openElectives = scopedSubjects OPEN_ELECTIVE batch subs
     in foldl (electiveStep env n0 batch fac rooms existing)
          \<lparr>pl_entries = [], pl_explanations = []\<rparr>
          (zip openElectives [0 ..< length openElectives]))"

subsection \<open>Step 7: library\<close>

definition libraryPeriodList :: "Period list" where
  "libraryPeriodList = [1, 2, 4, 5, 6, 7]"

text \<open>
  The two nested \<open>for\<close> loops return at the first free slot: the first free pair
  in the order days ascending, then periods in list order. The library entry has the
  empty string \<open>[]\<close> for \<open>facultyId\<close> and \<open>roomId\<close>.
\<close>

definition autoFillLibrary ::
  "Env \<Rightarrow> nat \<Rightarrow> Batch \<Rightarrow> Subject list \<Rightarrow> TimetableEntry list \<Rightarrow> Placement" where
  "autoFillLibrary env n0 batch subs existing =
    (case scopedSubjects LIBRARY batch subs of
       [] \<Rightarrow> \<lparr>pl_entries = [], pl_explanations = []\<rparr>
     | librarySubject # rest \<Rightarrow>
        (case find (\<lambda>dp. isSlotAvailable existing (b_id batch) (fst dp) (snd dp))
                (concat (map (\<lambda>d. map (\<lambda>p. (d, p)) libraryPeriodList) (sort WORKING_DAYS))) of
           None \<Rightarrow> \<lparr>pl_entries = [], pl_explanations = []\<rparr>
         | Some dp \<Rightarrow>
            \<lparr>pl_entries =
               [\<lparr>e_id = uuidv4 env n0, slotId = show_nat (fst dp) @ ''-'' @ show_nat (snd dp),
                 day = fst dp, period = snd dp, subjectId = s_id librarySubject,
                 facultyId = [], roomId = [], batchId = b_id batch, subBatchId = None,
                 isLabSession = False, labSlot = None, createdAt = now env n0\<rparr>],
             pl_explanations =
               [explain INFO SCHEDULER
                  (''Auto-filled Library on Day '' @ show_nat (fst dp + 1) @ '', Period ''
                    @ show_nat (snd dp) @ ''.'') (Some (s_id librarySubject)) (Some 7)]\<rparr>))"

subsection \<open>The ten steps\<close>

text \<open>
  Steps 4 to 7 on the entries that step 3 left in \<open>allEntries\<close>: the entries
  accumulated through step 7 and the explanations of these four steps. Every entry
  created so far in the run is in \<open>allEntries\<close>, so its length is the number of
  identifiers drawn.
\<close>

definition placementPhases ::
  "Env \<Rightarrow> InfrastructureState \<Rightarrow> AcademicState \<Rightarrow> Batch \<Rightarrow> TimetableEntry list
   \<Rightarrow> TimetableEntry list \<times> Explanation list" where
  "placementPhases env infrastructure academic batch allEntries3 =
    (let mandatoryResult = placeMandatorySubjects env (length allEntries3) batch
           (subjects academic) (faculty academic) (classrooms infrastructure) allEntries3;
         allEntries4 = allEntries3 @ pl_entries mandatoryResult;
         theoryResult = distributeTheorySubjects env (length allEntries4) batch
           (subjects academic) (faculty academic) (classrooms infrastructure) allEntries4;
         allEntries5 = allEntries4 @ pl_entries theoryResult;
         electiveResult = placeOpenElectives env (length allEntries5) batch
           (subjects academic) (faculty academic) (classrooms infrastructure) allEntries5;
         allEntries6 = allEntries5 @ pl_entries electiveResult;
         libraryResult = autoFillLibrary env (length allEntries6) batch
           (subjects academic) allEntries6;
         allEntries7 = allEntries6 @ pl_entries libraryResult
     in (allEntries7,
         pl_explanations mandatoryResult @ pl_explanations theoryResult
           @ pl_explanations electiveResult @ pl_explanations libraryResult))"

definition labStep ::
  "Env \<Rightarrow> InfrastructureState \<Rightarrow> AcademicState \<Rightarrow> Batch \<Rightarrow> LabRotation list
   \<Rightarrow> LabAllocationResult" where
  "labStep env infrastructure academic batch existingRotations =
    (let allEntries = [];
         allRotations = existingRotations;
         labSubjects = filter (\<lambda>s. s_type s = LAB) (subjects academic);
         deptLabs = filter (\<lambda>l. l_departmentId l = b_departmentId batch) (labs infrastructure)
     in allocateLabsForBatch env 0 batch labSubjects deptLabs (faculty academic) allEntries
          allRotations)"

definition generateTimetable ::
  "Env \<Rightarrow> InfrastructureState \<Rightarrow> AcademicState \<Rightarrow> string \<Rightarrow> LabRotation list
   \<Rightarrow> GenerationResult" where
  "generateTimetable env infrastructure academic bid existingRotations =
    (let validation = validateAll infrastructure academic;
         expl1 = v_explanations validation
     in if \<not> v_isValid validation then
          \<lparr>success = False, timetable = None, explanations = expl1\<rparr>
        else
         (let expl1' = expl1 @
                [explain INFO VALIDATOR ''All inputs validated successfully.'' None (Some 1)]
          in case find (\<lambda>b. b_id b = bid) (batches academic) of
               None \<Rightarrow>
                 \<lparr>success = False, timetable = None,
                  explanations = expl1' @
                    [explain ERROR SCHEDULER (''Batch with ID \"'' @ bid @ ''\" not found.'')
                       None (Some 2)]\<rparr>
             | Some batch \<Rightarrow>
                (let expl2 = expl1' @
                       [explain INFO SCHEDULER ''Academic time structure locked.'' None (Some 2)];
                     labResult = labStep env infrastructure academic batch existingRotations;
                     allEntries3 = lr_entries labResult;
                     expl3 = expl2 @ lr_explanations labResult
                 in if \<not> lr_success labResult then
                      \<lparr>success = False, timetable = None, explanations = expl3\<rparr>
                    else
                     (let placed = placementPhases env infrastructure academic batch allEntries3;
                          allEntries7 = fst placed;
                          expl8 = expl3 @ snd placed
                            @ validateWorkload (faculty academic) (subjects academic) allEntries7
                      in if hasWorkloadViolation (faculty academic) (subjects academic)
                              allEntries7 then
                           \<lparr>success = False, timetable = None,
                            explanations = expl8 @
                              [explain ERROR WORKLOAD
                                 ''Faculty workload limits exceeded. Generation failed.''
                                 None (Some 8)]\<rparr>
                         else
                          (let expl9 = expl8 @
                                 [explain INFO SCHEDULER
                                    ''Final validation passed. No constraint violations.''
                                    None (Some 9)];
                               tt = \<lparr>t_id = uuidv4 env (length allEntries7),
                                     t_batchId = b_id batch,
                                     t_entries = sort_key (\<lambda>e. (day e, period e)) allEntries7,
                                     generatedAt = now env (length allEntries7),
                                     isValid = True\<rparr>
                           in \<lparr>success = True, timetable = Some tt,
                               explanations = expl9 @
                                 [explain INFO SCHEDULER
                                    (''Timetable generated successfully for batch \"''
                                      @ b_name batch @ ''\" with ''
                                      @ show_nat (length allEntries7) @ '' entries.'')
                                    None (Some 10)]\<rparr>)))))"

section \<open>Concrete inputs\<close>

text \<open>
  A small installation used to run the engine: one block, one department, one
  classroom of capacity 60, two labs of capacity 30; identifiers are drawn as
  \<open>0, 1, 2, ...\<close> and the clock returns the call number.
\<close>

definition sampleEnv :: Env where
  "sampleEnv = \<lparr>uuidv4 = (\<lambda>n. show_nat n), now = (\<lambda>n. int n)\<rparr>"

definition sampleInfrastructure :: InfrastructureState where
  "sampleInfrastructure =
    \<lparr>blocks = [\<lparr>bl_id = ''k1'', bl_name = ''Main''\<rparr>],
     departments = [\<lparr>d_id = ''d1'', d_name = ''CSE''\<rparr>],
     classrooms = [\<lparr>c_id = ''c1'', c_name = ''R1'', c_capacity = 60, c_departmentId = ''d1''\<rparr>],
     labs = [\<lparr>l_id = ''l1'', l_name = ''Lab1'', l_capacity = 30, l_departmentId = ''d1''\<rparr>,
             \<lparr>l_id = ''l2'', l_name = ''Lab2'', l_capacity = 30, l_departmentId = ''d1''\<rparr>]\<rparr>"

definition osLab :: Subject where
  "osLab = \<lparr>s_id = ''x1'', s_name = ''OS Lab'', s_code = ''L1'', s_type = LAB,
            periodsPerWeek = 3, s_departmentId = ''d1'', s_semester = 3\<rparr>"

definition dbLab :: Subject where
  "dbLab = \<lparr>s_id = ''x2'', s_name = ''DB Lab'', s_code = ''L2'', s_type = LAB,
            periodsPerWeek = 3, s_departmentId = ''d1'', s_semester = 3\<rparr>"

text \<open>
  A batch of 60 students split into two sub-batches of 30, two lab subjects, and two
  assistant professors who each teach both labs.
\<close>

definition splitBatch :: Batch where
  "splitBatch = \<lparr>b_id = ''b1'', b_name = ''CSE-3A'', b_semester = 3, b_departmentId = ''d1'',
     totalStudents = 60,
     subBatches = [\<lparr>sb_id = ''s1'', sb_name = ''A1'', studentCount = 30\<rparr>,
                   \<lparr>sb_id = ''s2'', sb_name = ''A2'', studentCount = 30\<rparr>]\<rparr>"

definition splitAcademic :: AcademicState where
  "splitAcademic =
    \<lparr>batches = [splitBatch],
     subjects = [osLab, dbLab],
     faculty = [\<lparr>f_id = ''f1'', f_name = ''Ann'', designation = ASSISTANT_PROFESSOR,
                  assignedTheorySubjects = [], assignedLabSubjects = [''x1'', ''x2'']\<rparr>,
                \<lparr>f_id = ''f2'', f_name = ''Bob'', designation = ASSISTANT_PROFESSOR,
                  assignedTheorySubjects = [], assignedLabSubjects = [''x1'', ''x2'']\<rparr>]\<rparr>"
text \<open>
  A batch of 30 students in one sub-batch, with a single theory subject and no lab
  subject at all.
\<close>

definition wholeBatch :: Batch where
  "wholeBatch = \<lparr>b_id = ''b2'', b_name = ''CSE-3B'', b_semester = 3, b_departmentId = ''d1'',
     totalStudents = 30,
     subBatches = [\<lparr>sb_id = ''s0'', sb_name = ''A'', studentCount = 30\<rparr>]\<rparr>"

definition maths :: Subject where
  "maths = \<lparr>s_id = ''t1'', s_name = ''Maths'', s_code = ''M1'', s_type = THEORY,
            periodsPerWeek = 3, s_departmentId = ''d1'', s_semester = 3\<rparr>"

definition theoryOnlyAcademic :: AcademicState where
  "theoryOnlyAcademic =
    \<lparr>batches = [wholeBatch],
     subjects = [maths],
     faculty = [\<lparr>f_id = ''f1'', f_name = ''Ann'', designation = ASSISTANT_PROFESSOR,
                  assignedTheorySubjects = [''t1''], assignedLabSubjects = []\<rparr>]\<rparr>"

text \<open>
  Eleven entries of \<open>wholeBatch\<close> that occupy period 2 on every day and period 5 on
  every day but Saturday: only Saturday's Slot B stays free.
\<close>

definition crowdedWeek :: "TimetableEntry list" where
  "crowdedWeek =
     map (\<lambda>d. placeTheoryEntry sampleEnv d wholeBatch maths ''f1'' ''c1'' d 2) [0 ..< 6]
     @ map (\<lambda>d. placeTheoryEntry sampleEnv (6 + d) wholeBatch maths ''f1'' ''c1'' d 5) [0 ..< 5]"

text \<open>
  \<open>wholeBatch\<close> with two lab subjects taught by an assistant professor, a theory
  subject of 5 periods and an open elective of 0 periods per week, both assigned to
  a professor.
\<close>

definition algebra5 :: Subject where
  "algebra5 = \<lparr>s_id = ''t5'', s_name = ''Algebra'', s_code = ''M5'', s_type = THEORY,
               periodsPerWeek = 5, s_departmentId = ''d1'', s_semester = 3\<rparr>"

definition music :: Subject where
  "music = \<lparr>s_id = ''o1'', s_name = ''Music'', s_code = ''O1'', s_type = OPEN_ELECTIVE,
            periodsPerWeek = 0, s_departmentId = ''d1'', s_semester = 3\<rparr>"

definition ann :: Faculty where
  "ann = \<lparr>f_id = ''f1'', f_name = ''Ann'', designation = ASSISTANT_PROFESSOR,
          assignedTheorySubjects = [], assignedLabSubjects = [''x1'', ''x2'']\<rparr>"

definition cy :: Faculty where
  "cy = \<lparr>f_id = ''f3'', f_name = ''Cy'', designation = PROFESSOR,
         assignedTheorySubjects = [''t5'', ''o1''], assignedLabSubjects = []\<rparr>"

definition busyAcademic :: AcademicState where
  "busyAcademic =
    \<lparr>batches = [wholeBatch], subjects = [osLab, dbLab, algebra5, music], faculty = [ann, cy]\<rparr>"

text \<open>
  The same installation with its only classroom in another department, and an
  academic snapshot with two labs and one open elective of 1 period per week.
\<close>

definition remoteInfrastructure :: InfrastructureState where
  "remoteInfrastructure =
    \<lparr>blocks = [\<lparr>bl_id = ''k1'', bl_name = ''Main''\<rparr>],
     departments = [\<lparr>d_id = ''d1'', d_name = ''CSE''\<rparr>, \<lparr>d_id = ''d2'', d_name = ''ECE''\<rparr>],
     classrooms = [\<lparr>c_id = ''c9'', c_name = ''R9'', c_capacity = 60, c_departmentId = ''d2''\<rparr>],
     labs = [\<lparr>l_id = ''l1'', l_name = ''Lab1'', l_capacity = 30, l_departmentId = ''d1''\<rparr>]\<rparr>"

definition drama :: Subject where
  "drama = \<lparr>s_id = ''o2'', s_name = ''Drama'', s_code = ''O2'', s_type = OPEN_ELECTIVE,
            periodsPerWeek = 1, s_departmentId = ''d1'', s_semester = 3\<rparr>"

definition ethics :: Subject where
  "ethics = \<lparr>s_id = ''m1'', s_name = ''Ethics'', s_code = ''E1'', s_type = MANDATORY,
             periodsPerWeek = 1, s_departmentId = ''d1'', s_semester = 3\<rparr>"

definition dee :: Faculty where
  "dee = \<lparr>f_id = ''f4'', f_name = ''Dee'', designation = PROFESSOR,
          assignedTheorySubjects = [''o2'', ''m1''], assignedLabSubjects = []\<rparr>"

definition electiveAcademic :: AcademicState where
  "electiveAcademic =
    \<lparr>batches = [wholeBatch], subjects = [osLab, dbLab, drama], faculty = [ann, dee]\<rparr>"

text \<open>\<open>wholeBatch\<close> with a single lab subject.\<close>

definition oneLabAcademic :: AcademicState where
  "oneLabAcademic =
    \<lparr>batches = [wholeBatch], subjects = [osLab],
     faculty = [\<lparr>f_id = ''f1'', f_name = ''Ann'', designation = ASSISTANT_PROFESSOR,
                  assignedTheorySubjects = [], assignedLabSubjects = [''x1'']\<rparr>]\<rparr>"

text \<open>
  \<open>wholeBatch\<close> with subjects of every type: two labs, one theory subject, two
  mandatory subjects, one open elective and the library.
\<close>

definition civics :: Subject where
  "civics = \<lparr>s_id = ''m2'', s_name = ''Civics'', s_code = ''E2'', s_type = MANDATORY,
             periodsPerWeek = 1, s_departmentId = ''d1'', s_semester = 3\<rparr>"

definition reading :: Subject where
  "reading = \<lparr>s_id = ''r1'', s_name = ''Library'', s_code = ''R1'', s_type = LIBRARY,
              periodsPerWeek = 1, s_departmentId = ''d1'', s_semester = 3\<rparr>"

definition eve :: Faculty where
  "eve = \<lparr>f_id = ''f5'', f_name = ''Eve'', designation = ASSISTANT_PROFESSOR,
          assignedTheorySubjects = [''t1'', ''r1'', ''m2''], assignedLabSubjects = []\<rparr>"

definition fullAcademic :: AcademicState where
  "fullAcademic =
    \<lparr>batches = [wholeBatch],
     subjects = [osLab, dbLab, maths, ethics, civics, drama, reading],
     faculty = [ann, dee, eve]\<rparr>"

section \<open>Notions used in the statements and proofs\<close>

subsection \<open>Admission of an entry\<close>

text \<open>
  An entry is admitted by a list of entries when its batch, its faculty and its room
  are all free there at the entry's day and period: the three checks of steps 4 to 6.
\<close>

definition admits :: "TimetableEntry list \<Rightarrow> TimetableEntry \<Rightarrow> bool" where
  "admits es e \<longleftrightarrow> isSlotAvailable es (batchId e) (day e) (period e)
                  \<and> isFacultyAvailable es (facultyId e) (day e) (period e)
                  \<and> isRoomAvailable es (roomId e) (day e) (period e)"

subsection \<open>Workload statistics in the words of the specification\<close>




subsection \<open>Erasing identifiers and time stamps\<close>

text \<open>
  \<open>erase\<close> blanks the two fields of an entry that come from the identifier and clock
  source; \<open>blankEnv\<close> is the source that hands out blank values, so that the entries
  it produces are already erased.
\<close>

definition erase :: "TimetableEntry \<Rightarrow> TimetableEntry" where
  "erase e = e\<lparr>e_id := [], createdAt := 0\<rparr>"

definition blankEnv :: Env where
  "blankEnv = \<lparr>uuidv4 = (\<lambda>k. []), now = (\<lambda>k. 0)\<rparr>"

definition eraseLab :: "LabState \<Rightarrow> LabState" where
  "eraseLab st = st\<lparr>la_entries := map erase (la_entries st)\<rparr>"

definition erasePlacement :: "Placement \<Rightarrow> Placement" where
  "erasePlacement a = a\<lparr>pl_entries := map erase (pl_entries a)\<rparr>"

definition eraseTheoryLoop :: "TheoryLoop \<Rightarrow> TheoryLoop" where
  "eraseTheoryLoop st = st\<lparr>tl_entries := map erase (tl_entries st)\<rparr>"

definition eraseTheoryState :: "TheoryState \<Rightarrow> TheoryState" where
  "eraseTheoryState ts = ts\<lparr>th_entries := map erase (th_entries ts)\<rparr>"

definition eraseLabResult :: "LabAllocationResult \<Rightarrow> LabAllocationResult" where
  "eraseLabResult r = r\<lparr>lr_entries := map erase (lr_entries r)\<rparr>"

text \<open>The entries of the returned timetable, erased; \<open>None\<close> when no timetable is returned.\<close>

definition erasedEntries :: "GenerationResult \<Rightarrow> TimetableEntry list option" where
  "erasedEntries r = map_option (\<lambda>t. map erase (t_entries t)) (timetable r)"

text \<open>The entries that \<open>blankEnv\<close> produces do not depend on the call number.\<close>

definition erasedLabEntry ::
  "LabSession \<Rightarrow> Period \<Rightarrow> string \<Rightarrow> string \<Rightarrow> string \<Rightarrow> string \<Rightarrow> string option
   \<Rightarrow> TimetableEntry" where
  "erasedLabEntry slot p subjId facId lid batId subBatId
     = labEntry blankEnv 0 slot p subjId facId lid batId subBatId"

definition erasedTheoryEntry ::
  "Batch \<Rightarrow> Subject \<Rightarrow> string \<Rightarrow> string \<Rightarrow> Day \<Rightarrow> Period \<Rightarrow> TimetableEntry" where
  "erasedTheoryEntry batch subject facId cid d p
     = placeTheoryEntry blankEnv 0 batch subject facId cid d p"

subsection \<open>Entries and subject types\<close>

text \<open>
  An entry is for a subject of type \<open>ty\<close> when its \<open>subjectId\<close> is the id of a
  subject of that type; subject ids are taken to identify the subjects.
\<close>

definition entryForType :: "Subject list \<Rightarrow> SubjectType \<Rightarrow> TimetableEntry \<Rightarrow> bool" where
  "entryForType subs ty e \<longleftrightarrow> list_ex (\<lambda>s. s_id s = subjectId e \<and> s_type s = ty) subs"

definition placedAsRequired :: "Subject list \<Rightarrow> TimetableEntry \<Rightarrow> bool" where
  "placedAsRequired subs e \<longleftrightarrow>
     (entryForType subs MANDATORY e \<longrightarrow> period e = 3 \<and> (day e = 0 \<or> day e = 1))
   \<and> (entryForType subs OPEN_ELECTIVE e \<longrightarrow>
        period e = 1 \<and> (day e = 0 \<or> day e = 1 \<or> day e = 2))"

subsection \<open>Conflicts between entries\<close>









section \<open>Available lab slots\<close>

lemma slotUsed_iff:
  "slotUsed existing bid d ps
     \<longleftrightarrow> (\<exists>p \<in> set ps. \<exists>e \<in> set existing. batchId e = bid \<and> day e = d \<and> period e = p)"
  by (simp add: slotUsed_def list_ex_iff)

lemma set_getAvailableLabSlots:
  "set (getAvailableLabSlots existing bid) =
     {\<lparr>ls_day = d, ls_slot = SlotA, ls_periods = [2, 3, 4]\<rparr> | d.
         d \<le> 5 \<and> \<not> slotUsed existing bid d [2, 3, 4]}
   \<union> {\<lparr>ls_day = d, ls_slot = SlotB, ls_periods = [5, 6, 7]\<rparr> | d.
         d \<le> 5 \<and> \<not> slotUsed existing bid d [5, 6, 7]}"
proof -
  have days: "set (sort WORKING_DAYS) = {d. d \<le> 5}"
    by (auto simp: WORKING_DAYS_def)
  show ?thesis
    unfolding getAvailableLabSlots_def set_concat set_map days
    by (auto simp: LAB_SLOT_A_def LAB_SLOT_B_def)
qed

section \<open>Invariants of the loops\<close>

lemma foldl_invariant:
  assumes "P a" and "\<And>b x. P b \<Longrightarrow> x \<in> set xs \<Longrightarrow> P (f b x)"
  shows "P (foldl f a xs)"
  using assms by (induction xs arbitrary: a) simp_all

lemma labLoop_invariant:
  assumes "P st"
    and "\<And>s s'. P s \<Longrightarrow>
           labIteration env n0 batch subs deptLabs fac existing rots s = Continue s' \<Longrightarrow> P s'"
    and "\<And>s s'. P s \<Longrightarrow>
           labIteration env n0 batch subs deptLabs fac existing rots s = Break s' \<Longrightarrow> P s'"
  shows "P (labLoop env n0 batch subs deptLabs fac existing rots st)"
  using assms
proof (induction env n0 batch subs deptLabs fac existing rots st rule: labLoop.induct)
  case (1 env n0 batch subs deptLabs fac existing rots st)
  show ?case
  proof (cases "labIteration env n0 batch subs deptLabs fac existing rots st")
    case (Continue st')
    with "1.prems"(1,2) have "P st'" by blast
    then have "P (labLoop env n0 batch subs deptLabs fac existing rots st')"
      using "1.prems"(2,3) by (intro "1.IH" [OF Continue]) blast+
    with Continue show ?thesis
      by (simp add: labLoop.simps [of env n0 batch subs deptLabs fac existing rots st])
  next
    case (Break st')
    with "1.prems"(1,3) have "P st'" by blast
    with Break show ?thesis
      by (simp add: labLoop.simps [of env n0 batch subs deptLabs fac existing rots st])
  qed
qed

lemma theoryLoop_invariant:
  assumes "P st"
    and "\<And>s. P s \<Longrightarrow> P (theoryLoopBody env n0 batch subject facId cid existing s)"
  shows "P (theoryLoop env n0 batch subject facId cid existing periodsToPlace maxAttempts st)"
  using assms
proof (induction env n0 batch subject facId cid existing periodsToPlace maxAttempts st
       rule: theoryLoop.induct)
  case (1 env n0 batch subject facId cid existing periodsToPlace maxAttempts st)
  show ?case
  proof (cases "int (tl_placedCount st) < periodsToPlace \<and> tl_attempts st < maxAttempts")
    case True
    from "1.prems" have "P (theoryLoopBody env n0 batch subject facId cid existing st)"
      by blast
    then have "P (theoryLoop env n0 batch subject facId cid existing periodsToPlace maxAttempts
                    (theoryLoopBody env n0 batch subject facId cid existing st))"
      using "1.prems"(2) by (intro "1.IH" [OF True]) blast+
    with True show ?thesis
      by (simp add: theoryLoop.simps [of env n0 batch subject facId cid existing periodsToPlace
                                         maxAttempts st])
  next
    case False
    with "1.prems"(1) show ?thesis
      by (auto simp: theoryLoop.simps [of env n0 batch subject facId cid existing periodsToPlace
                                          maxAttempts st])
  qed
qed

text \<open>What a returned timetable is made of.\<close>

lemma generateTimetable_Some:
  assumes "timetable (generateTimetable env infrastructure academic bid rots) = Some tt"
  shows "\<exists>batch. find (\<lambda>b. b_id b = bid) (batches academic) = Some batch
           \<and> v_isValid (validateAll infrastructure academic)
           \<and> lr_success (labStep env infrastructure academic batch rots)
           \<and> t_entries tt = sort_key (\<lambda>e. (day e, period e))
                (fst (placementPhases env infrastructure academic batch
                        (lr_entries (labStep env infrastructure academic batch rots))))"
  using assms
  by (auto simp: generateTimetable_def Let_def split: if_splits option.splits)

lemma generateTimetable_success_iff:
  "success (generateTimetable env infrastructure academic bid rots)
     \<longleftrightarrow> timetable (generateTimetable env infrastructure academic bid rots) \<noteq> None"
  by (simp add: generateTimetable_def Let_def split: option.splits)
section \<open>What one step of each phase adds\<close>

lemma placeTheoryEntry_fields [simp]:
  "day (placeTheoryEntry env k batch subject facId cid d p) = d"
  "period (placeTheoryEntry env k batch subject facId cid d p) = p"
  "subjectId (placeTheoryEntry env k batch subject facId cid d p) = s_id subject"
  "facultyId (placeTheoryEntry env k batch subject facId cid d p) = facId"
  "roomId (placeTheoryEntry env k batch subject facId cid d p) = cid"
  "batchId (placeTheoryEntry env k batch subject facId cid d p) = b_id batch"
  "isLabSession (placeTheoryEntry env k batch subject facId cid d p) = False"
  by (simp_all add: placeTheoryEntry_def)

lemma labEntry_fields [simp]:
  "day (labEntry env k slot p subjId facId lid batId subBatId) = ls_day slot"
  "period (labEntry env k slot p subjId facId lid batId subBatId) = p"
  "subjectId (labEntry env k slot p subjId facId lid batId subBatId) = subjId"
  "facultyId (labEntry env k slot p subjId facId lid batId subBatId) = facId"
  "roomId (labEntry env k slot p subjId facId lid batId subBatId) = lid"
  "batchId (labEntry env k slot p subjId facId lid batId subBatId) = batId"
  "isLabSession (labEntry env k slot p subjId facId lid batId subBatId) = True"
  by (simp_all add: labEntry_def)

lemma scopedSubjects_member:
  "s \<in> set (scopedSubjects ty batch subs) \<Longrightarrow> s \<in> set subs \<and> s_type s = ty"
  by (simp add: scopedSubjects_def)

lemma zip_index_member:
  "si \<in> set (zip xs [0 ..< length xs]) \<Longrightarrow> fst si \<in> set xs"
  by (cases si) (auto dest: set_zip_leftD)

lemma mandatoryStep_cases:
  "pl_entries (mandatoryStep env n0 batch fac rooms existing acc si) = pl_entries acc
   \<or> (\<exists>e. pl_entries (mandatoryStep env n0 batch fac rooms existing acc si)
             = pl_entries acc @ [e]
          \<and> admits (existing @ pl_entries acc) e \<and> subjectId e = s_id (fst si)
          \<and> batchId e = b_id batch \<and> \<not> isLabSession e \<and> period e = 3 \<and> day e \<le> 1)"
proof (cases "snd si < 2")
  case False
  then show ?thesis by (simp add: mandatoryStep_def Let_def)
next
  case True
  then have d: "[0, 1 :: nat] ! snd si \<le> 1"
    by (cases "snd si") simp_all
  show ?thesis
    unfolding mandatoryStep_def Let_def admits_def
    using True d
    by (auto simp: find_Some_iff split: list.splits option.splits)
qed

lemma electiveStep_cases:
  "pl_entries (electiveStep env n0 batch fac rooms existing acc si) = pl_entries acc
   \<or> (\<exists>e. pl_entries (electiveStep env n0 batch fac rooms existing acc si)
             = pl_entries acc @ [e]
          \<and> admits (existing @ pl_entries acc) e \<and> subjectId e = s_id (fst si)
          \<and> batchId e = b_id batch \<and> \<not> isLabSession e \<and> period e = 1 \<and> day e \<le> 2)"
proof (cases "snd si < 3")
  case False
  then show ?thesis by (simp add: electiveStep_def Let_def)
next
  case True
  then have d: "[0, 1, 2 :: nat] ! snd si \<le> 2"
    by (cases "snd si"; cases "snd si - 1") auto
  show ?thesis
    unfolding electiveStep_def Let_def admits_def
    using True d
    by (auto simp: find_Some_iff split: list.splits option.splits)
qed

lemma theoryLoopBody_cases:
  "tl_entries (theoryLoopBody env n0 batch subject facId cid existing st) = tl_entries st
   \<or> (\<exists>e. tl_entries (theoryLoopBody env n0 batch subject facId cid existing st)
             = tl_entries st @ [e]
          \<and> admits (existing @ tl_entries st) e \<and> subjectId e = s_id subject
          \<and> batchId e = b_id batch \<and> \<not> isLabSession e)"
  unfolding theoryLoopBody_def Let_def admits_def
  by simp

lemma autoFillLibrary_cases:
  "pl_entries (autoFillLibrary env n0 batch subs existing) = []
   \<or> (\<exists>e s. pl_entries (autoFillLibrary env n0 batch subs existing) = [e]
          \<and> isSlotAvailable existing (batchId e) (day e) (period e)
          \<and> facultyId e = [] \<and> roomId e = [] \<and> batchId e = b_id batch \<and> \<not> isLabSession e
          \<and> s \<in> set subs \<and> s_type s = LIBRARY \<and> subjectId e = s_id s)"
proof (cases "scopedSubjects LIBRARY batch subs")
  case Nil
  then show ?thesis by (simp add: autoFillLibrary_def)
next
  case (Cons s rest)
  then have "s \<in> set (scopedSubjects LIBRARY batch subs)" by simp
  then have s: "s \<in> set subs \<and> s_type s = LIBRARY" by (rule scopedSubjects_member)
  show ?thesis
  proof (cases "find (\<lambda>dp. isSlotAvailable existing (b_id batch) (fst dp) (snd dp))
                 (concat (map (\<lambda>d. map (\<lambda>p. (d, p)) libraryPeriodList) (sort WORKING_DAYS)))")
    case None
    with Cons show ?thesis by (simp add: autoFillLibrary_def)
  next
    case (Some dp)
    then have "isSlotAvailable existing (b_id batch) (fst dp) (snd dp)"
      by (auto simp: find_Some_iff)
    with Cons Some s show ?thesis
      by (auto simp: autoFillLibrary_def)
  qed
qed

lemma foldl_labEntry_shape:
  "\<exists>new. foldl (\<lambda>es p. es @ [labEntry env (n0 + length es) slot p subjId facId lid batId
                                 subBatId]) es ps = es @ new
        \<and> map period new = ps
        \<and> (\<forall>e \<in> set new. day e = ls_day slot \<and> subjectId e = subjId \<and> facultyId e = facId
              \<and> roomId e = lid \<and> batchId e = batId \<and> isLabSession e)"
proof (induction ps arbitrary: es)
  case Nil
  show ?case by simp
next
  case (Cons p ps)
  let ?x = "labEntry env (n0 + length es) slot p subjId facId lid batId subBatId"
  from Cons.IH [of "es @ [?x]"] obtain new where
    n: "foldl (\<lambda>es p. es @ [labEntry env (n0 + length es) slot p subjId facId lid batId
                               subBatId]) (es @ [?x]) ps = (es @ [?x]) @ new"
    "map period new = ps"
    "\<forall>e \<in> set new. day e = ls_day slot \<and> subjectId e = subjId \<and> facultyId e = facId
              \<and> roomId e = lid \<and> batchId e = batId \<and> isLabSession e"
    by blast
  show ?case
  proof (intro exI [of _ "?x # new"] conjI)
    show "foldl (\<lambda>es p. es @ [labEntry env (n0 + length es) slot p subjId facId lid batId
                               subBatId]) es (p # ps) = es @ ?x # new"
      using n(1) by simp
    show "map period (?x # new) = p # ps" using n(2) by simp
    show "\<forall>e \<in> set (?x # new). day e = ls_day slot \<and> subjectId e = subjId
            \<and> facultyId e = facId \<and> roomId e = lid \<and> batchId e = batId \<and> isLabSession e"
      using n(3) by simp
  qed
qed

lemma pushLabEntries_shape:
  "\<exists>new. pushLabEntries env n0 slot subjId facId lid batId subBatId es = es @ new
        \<and> map period new = ls_periods slot
        \<and> (\<forall>e \<in> set new. day e = ls_day slot \<and> subjectId e = subjId \<and> facultyId e = facId
              \<and> roomId e = lid \<and> batchId e = batId \<and> isLabSession e)"
  unfolding pushLabEntries_def by (rule foldl_labEntry_shape)

lemma placeSubBatch_cases:
  "la_entries (placeSubBatch env n0 batch subject deptLabs labFaculty existing rots slot st sbi)
     = la_entries st
   \<or> (\<exists>facId lid subBatId.
         isFacultyAvailableForSlot (existing @ la_entries st) facId (ls_day slot) (ls_periods slot)
       \<and> la_entries (placeSubBatch env n0 batch subject deptLabs labFaculty existing rots slot
                       st sbi)
         = pushLabEntries env n0 slot (s_id subject) facId lid (b_id batch) subBatId
             (la_entries st))"
proof -
  let ?cur = "existing @ la_entries st"
  let ?cand = "labFaculty ! (snd sbi mod length labFaculty)"
  let ?af = "if isFacultyAvailableForSlot ?cur (f_id ?cand) (ls_day slot) (ls_periods slot)
             then Some ?cand
             else find (\<lambda>f. isFacultyAvailableForSlot ?cur (f_id f) (ls_day slot)
                              (ls_periods slot)) labFaculty"
  show ?thesis
  proof (cases ?af)
    case None
    then show ?thesis
      by (simp add: placeSubBatch_def Let_def)
  next
    case (Some af)
    then have av: "isFacultyAvailableForSlot ?cur (f_id af) (ls_day slot) (ls_periods slot)"
      by (auto simp: find_Some_iff split: if_splits)
    let ?lid = "l_id (deptLabs !
               (case find (\<lambda>r. r_batchId r = b_id batch \<and> r_subBatchId r = sb_id (fst sbi))
                       rots of
                  None \<Rightarrow> snd sbi mod length deptLabs
                | Some prev \<Rightarrow>
                    nat ((findIndex (\<lambda>l. l_id l = r_labId prev) deptLabs + 1)
                         mod int (length deptLabs))))"
    from Some have "la_entries (placeSubBatch env n0 batch subject deptLabs labFaculty
                                existing rots slot st sbi)
         = pushLabEntries env n0 slot (s_id subject) (f_id af) ?lid (b_id batch)
             (Some (sb_id (fst sbi))) (la_entries st)"
      by (simp add: placeSubBatch_def Let_def)
    with av show ?thesis by blast
  qed
qed

lemma labIteration_cases:
  assumes "labIteration env n0 batch subs deptLabs fac existing rots st = Continue st'
           \<or> labIteration env n0 batch subs deptLabs fac existing rots st = Break st'"
  shows "la_entries st' = la_entries st
   \<or> (\<exists>slot subject labFaculty xs.
         slot \<in> set (getAvailableLabSlots (existing @ la_entries st) (b_id batch))
       \<and> subject \<in> set subs
       \<and> (1 < length (subBatches batch) \<and>
            la_entries st' = la_entries
              (foldl (placeSubBatch env n0 batch subject deptLabs labFaculty existing rots slot)
                 (st\<lparr>la_usedSlots := insert (slotKey slot) (la_usedSlots st)\<rparr>) xs)
          \<or> \<not> 1 < length (subBatches batch) \<and>
            la_entries st' = pushLabEntries env n0 slot (s_id subject) (f_id (labFaculty ! 0))
              (l_id (deptLabs ! 0)) (b_id batch) None (la_entries st)))"
proof (cases "la_subjectIndex st < length subs
              \<and> la_sessionNumber st < max (length subs) MIN_LAB_SESSIONS_PER_WEEK")
  case False
  with assms show ?thesis by (auto simp: labIteration_def)
next
  case cond: True
  then have subj: "subs ! (la_subjectIndex st mod length subs) \<in> set subs" by simp
  show ?thesis
  proof (cases "find (\<lambda>s. slotKey s \<notin> la_usedSlots st)
                  (getAvailableLabSlots (existing @ la_entries st) (b_id batch))")
    case None
    with assms cond show ?thesis by (auto simp: labIteration_def Let_def)
  next
    case (Some slot)
    then have slot: "slot \<in> set (getAvailableLabSlots (existing @ la_entries st) (b_id batch))"
      by (auto simp: find_Some_iff)
    let ?subject = "subs ! (la_subjectIndex st mod length subs)"
    let ?lf = "sort_key f_id (filter (\<lambda>f. s_id ?subject \<in> set (assignedLabSubjects f)) fac)"
    show ?thesis
    proof (cases "?lf = []")
      case True
      with assms cond Some show ?thesis by (auto simp: labIteration_def Let_def)
    next
      case False
      show ?thesis
      proof (cases "1 < length (subBatches batch)")
        case True
        with assms cond Some False
        have "la_entries st' = la_entries
              (foldl (placeSubBatch env n0 batch ?subject deptLabs ?lf existing rots slot)
                 (st\<lparr>la_usedSlots := insert (slotKey slot) (la_usedSlots st)\<rparr>)
                 (zip (sort_key sb_id (subBatches batch)) [0 ..< length (subBatches batch)]))"
          by (auto simp: labIteration_def Let_def split: if_splits)
        with slot subj True show ?thesis by blast
      next
        case single: False
        with assms cond Some False
        have "la_entries st' = pushLabEntries env n0 slot (s_id ?subject) (f_id (?lf ! 0))
              (l_id (deptLabs ! 0)) (b_id batch) None (la_entries st)"
          by (auto simp: labIteration_def Let_def placeWholeBatch_def split: if_splits)
        with slot subj single show ?thesis by blast
      qed
    qed
  qed
qed
section \<open>Induction rules for the entries of each phase\<close>

text \<open>
  Each phase builds its entry list from the empty list by appending entries; the
  rules below say what is known about every appended entry, so that a property of
  the list is established by showing that each such step keeps it.
\<close>

lemma placeMandatorySubjects_rule:
  assumes "I []"
    and "\<And>es e s. I es \<Longrightarrow> admits (existing @ es) e \<Longrightarrow> s \<in> set subs
           \<Longrightarrow> s_type s = MANDATORY \<Longrightarrow> subjectId e = s_id s \<Longrightarrow> batchId e = b_id batch
           \<Longrightarrow> \<not> isLabSession e \<Longrightarrow> period e = 3 \<Longrightarrow> day e \<le> 1 \<Longrightarrow> I (es @ [e])"
  shows "I (pl_entries (placeMandatorySubjects env n0 batch subs fac rooms existing))"
  unfolding placeMandatorySubjects_def Let_def
proof (rule foldl_invariant [where P = "\<lambda>acc :: Placement. I (pl_entries acc)"])
  show "I (pl_entries \<lparr>pl_entries = [], pl_explanations = []\<rparr>)"
    using assms(1) by simp
next
  fix acc :: Placement and si :: "Subject \<times> nat"
  assume inv: "I (pl_entries acc)"
    and mem: "si \<in> set (zip (scopedSubjects MANDATORY batch subs)
                          [0 ..< length (scopedSubjects MANDATORY batch subs)])"
  from mem have "fst si \<in> set (scopedSubjects MANDATORY batch subs)"
    by (rule zip_index_member)
  then have s: "fst si \<in> set subs" "s_type (fst si) = MANDATORY"
    using scopedSubjects_member by blast+
  from mandatoryStep_cases [of env n0 batch fac rooms existing acc si]
  show "I (pl_entries (mandatoryStep env n0 batch fac rooms existing acc si))"
  proof
    assume "pl_entries (mandatoryStep env n0 batch fac rooms existing acc si) = pl_entries acc"
    with inv show ?thesis by simp
  next
    assume "\<exists>e. pl_entries (mandatoryStep env n0 batch fac rooms existing acc si)
                  = pl_entries acc @ [e]
          \<and> admits (existing @ pl_entries acc) e \<and> subjectId e = s_id (fst si)
          \<and> batchId e = b_id batch \<and> \<not> isLabSession e \<and> period e = 3 \<and> day e \<le> 1"
    then obtain e where e: "pl_entries (mandatoryStep env n0 batch fac rooms existing acc si)
                  = pl_entries acc @ [e]"
      "admits (existing @ pl_entries acc) e" "subjectId e = s_id (fst si)"
      "batchId e = b_id batch" "\<not> isLabSession e" "period e = 3" "day e \<le> 1"
      by blast
    from assms(2) [OF inv e(2) s e(3-7)] e(1) show ?thesis by simp
  qed
qed

lemma placeOpenElectives_rule:
  assumes "I []"
    and "\<And>es e s. I es \<Longrightarrow> admits (existing @ es) e \<Longrightarrow> s \<in> set subs
           \<Longrightarrow> s_type s = OPEN_ELECTIVE \<Longrightarrow> subjectId e = s_id s \<Longrightarrow> batchId e = b_id batch
           \<Longrightarrow> \<not> isLabSession e \<Longrightarrow> period e = 1 \<Longrightarrow> day e \<le> 2 \<Longrightarrow> I (es @ [e])"
  shows "I (pl_entries (placeOpenElectives env n0 batch subs fac rooms existing))"
  unfolding placeOpenElectives_def Let_def
proof (rule foldl_invariant [where P = "\<lambda>acc :: Placement. I (pl_entries acc)"])
  show "I (pl_entries \<lparr>pl_entries = [], pl_explanations = []\<rparr>)"
    using assms(1) by simp
next
  fix acc :: Placement and si :: "Subject \<times> nat"
  assume inv: "I (pl_entries acc)"
    and mem: "si \<in> set (zip (scopedSubjects OPEN_ELECTIVE batch subs)
                          [0 ..< length (scopedSubjects OPEN_ELECTIVE batch subs)])"
  from mem have "fst si \<in> set (scopedSubjects OPEN_ELECTIVE batch subs)"
    by (rule zip_index_member)
  then have s: "fst si \<in> set subs" "s_type (fst si) = OPEN_ELECTIVE"
    using scopedSubjects_member by blast+
  from electiveStep_cases [of env n0 batch fac rooms existing acc si]
  show "I (pl_entries (electiveStep env n0 batch fac rooms existing acc si))"
  proof
    assume "pl_entries (electiveStep env n0 batch fac rooms existing acc si) = pl_entries acc"
    with inv show ?thesis by simp
  next
    assume "\<exists>e. pl_entries (electiveStep env n0 batch fac rooms existing acc si)
                  = pl_entries acc @ [e]
          \<and> admits (existing @ pl_entries acc) e \<and> subjectId e = s_id (fst si)
          \<and> batchId e = b_id batch \<and> \<not> isLabSession e \<and> period e = 1 \<and> day e \<le> 2"
    then obtain e where e: "pl_entries (electiveStep env n0 batch fac rooms existing acc si)
                  = pl_entries acc @ [e]"
      "admits (existing @ pl_entries acc) e" "subjectId e = s_id (fst si)"
      "batchId e = b_id batch" "\<not> isLabSession e" "period e = 1" "day e \<le> 2"
      by blast
    from assms(2) [OF inv e(2) s e(3-7)] e(1) show ?thesis by simp
  qed
qed

lemma theorySubjectStep_rule:
  assumes "I (th_entries ts)" and "subject \<in> set subs" and "s_type subject = THEORY"
    and "\<And>es e s. I es \<Longrightarrow> admits (existing @ es) e \<Longrightarrow> s \<in> set subs
           \<Longrightarrow> s_type s = THEORY \<Longrightarrow> subjectId e = s_id s \<Longrightarrow> batchId e = b_id batch
           \<Longrightarrow> \<not> isLabSession e \<Longrightarrow> I (es @ [e])"
  shows "I (th_entries (theorySubjectStep env n0 batch fac rooms existing ts subject))"
proof (cases "theoryFacultyOf fac subject")
  case Nil
  with assms(1) show ?thesis by (simp add: theorySubjectStep_def Let_def)
next
  case (Cons af rest)
  show ?thesis
  proof (cases "sort_key c_id (filter (\<lambda>c. c_departmentId c = b_departmentId batch
                                \<and> c_capacity c \<ge> totalStudents batch) rooms)")
    case Nil
    with Cons assms(1) show ?thesis by (simp add: theorySubjectStep_def Let_def)
  next
    case (Cons classroom rest')
    let ?st0 = "\<lparr>tl_entries = th_entries ts, tl_placedCount = 0, tl_periodIndex = 0,
                 tl_dayIndex = th_globalDayIndex ts, tl_attempts = 0\<rparr>"
    let ?ma = "length (sort WORKING_DAYS) * length theoryPeriodList * 2"
    have "I (tl_entries (theoryLoop env n0 batch subject (f_id af) (c_id classroom) existing
                           (periodsPerWeek subject) ?ma ?st0))"
    proof (rule theoryLoop_invariant [where P = "\<lambda>st :: TheoryLoop. I (tl_entries st)"])
      show "I (tl_entries ?st0)" using assms(1) by simp
    next
      fix st :: TheoryLoop
      assume inv: "I (tl_entries st)"
      from theoryLoopBody_cases [of env n0 batch subject "f_id af" "c_id classroom" existing st]
      show "I (tl_entries (theoryLoopBody env n0 batch subject (f_id af) (c_id classroom)
                             existing st))"
      proof
        assume "tl_entries (theoryLoopBody env n0 batch subject (f_id af) (c_id classroom)
                              existing st) = tl_entries st"
        with inv show ?thesis by simp
      next
        assume "\<exists>e. tl_entries (theoryLoopBody env n0 batch subject (f_id af) (c_id classroom)
                                  existing st) = tl_entries st @ [e]
          \<and> admits (existing @ tl_entries st) e \<and> subjectId e = s_id subject
          \<and> batchId e = b_id batch \<and> \<not> isLabSession e"
        then obtain e where e: "tl_entries (theoryLoopBody env n0 batch subject (f_id af)
                                  (c_id classroom) existing st) = tl_entries st @ [e]"
          "admits (existing @ tl_entries st) e" "subjectId e = s_id subject"
          "batchId e = b_id batch" "\<not> isLabSession e"
          by blast
        from assms(4) [OF inv e(2) assms(2,3) e(3-5)] e(1) show ?thesis by simp
      qed
    qed
    with \<open>theoryFacultyOf fac subject = af # rest\<close> Cons show ?thesis
      by (simp add: theorySubjectStep_def Let_def)
  qed
qed

lemma distributeTheorySubjects_rule:
  assumes "I []"
    and "\<And>es e s. I es \<Longrightarrow> admits (existing @ es) e \<Longrightarrow> s \<in> set subs
           \<Longrightarrow> s_type s = THEORY \<Longrightarrow> subjectId e = s_id s \<Longrightarrow> batchId e = b_id batch
           \<Longrightarrow> \<not> isLabSession e \<Longrightarrow> I (es @ [e])"
  shows "I (pl_entries (distributeTheorySubjects env n0 batch subs fac rooms existing))"
proof -
  have "I (th_entries (foldl (theorySubjectStep env n0 batch fac rooms existing)
             \<lparr>th_entries = [], th_explanations = [], th_globalDayIndex = 0\<rparr>
             (scopedSubjects THEORY batch subs)))"
  proof (rule foldl_invariant [where P = "\<lambda>ts :: TheoryState. I (th_entries ts)"])
    show "I (th_entries \<lparr>th_entries = [], th_explanations = [], th_globalDayIndex = 0\<rparr>)"
      using assms(1) by simp
  next
    fix ts :: TheoryState and subject :: Subject
    assume inv: "I (th_entries ts)" and "subject \<in> set (scopedSubjects THEORY batch subs)"
    then have s: "subject \<in> set subs" "s_type subject = THEORY"
      using scopedSubjects_member by blast+
    show "I (th_entries (theorySubjectStep env n0 batch fac rooms existing ts subject))"
      using inv s assms(2) by (rule theorySubjectStep_rule)
  qed
  then show ?thesis by (simp add: distributeTheorySubjects_def Let_def)
qed
lemma autoFillLibrary_rule:
  assumes "I []"
    and "\<And>(e :: TimetableEntry) (s :: Subject).
           isSlotAvailable existing (batchId e) (day e) (period e) \<Longrightarrow> facultyId e = []
           \<Longrightarrow> roomId e = [] \<Longrightarrow> batchId e = b_id batch \<Longrightarrow> \<not> isLabSession e
           \<Longrightarrow> s \<in> set subs \<Longrightarrow> s_type s = LIBRARY \<Longrightarrow> subjectId e = s_id s \<Longrightarrow> I [e]"
  shows "I (pl_entries (autoFillLibrary env n0 batch subs existing))"
  using autoFillLibrary_cases [of env n0 batch subs existing] assms
  by (elim disjE exE conjE) simp_all

lemma available_slot_facts:
  assumes "slot \<in> set (getAvailableLabSlots cur bid)"
  shows "ls_day slot \<le> 5"
    and "ls_periods slot = [2, 3, 4] \<or> ls_periods slot = [5, 6, 7]"
    and "\<not> slotUsed cur bid (ls_day slot) (ls_periods slot)"
  using assms unfolding set_getAvailableLabSlots by auto

lemma allocateLabsForBatch_rule:
  assumes "I []"
    and step: "\<And>(es :: TimetableEntry list) (new :: TimetableEntry list) (slot :: LabSession)
             (s :: Subject) facId lid. I es \<Longrightarrow> s \<in> set labSubjects \<Longrightarrow> ls_day slot \<le> 5
           \<Longrightarrow> ls_periods slot = [2, 3, 4] \<or> ls_periods slot = [5, 6, 7]
           \<Longrightarrow> (if 1 < length (subBatches batch)
                then isFacultyAvailableForSlot (existing @ es) facId (ls_day slot)
                       (ls_periods slot)
                else \<not> slotUsed (existing @ es) (b_id batch) (ls_day slot) (ls_periods slot))
           \<Longrightarrow> map period new = ls_periods slot
           \<Longrightarrow> (\<forall>e \<in> set new. day e = ls_day slot \<and> subjectId e = s_id s \<and> facultyId e = facId
                   \<and> roomId e = lid \<and> batchId e = b_id batch \<and> isLabSession e)
           \<Longrightarrow> I (es @ new)"
  shows "I (lr_entries (allocateLabsForBatch env n0 batch labSubjects labList fac existing rots))"
proof -
  let ?subs = "sort_key s_id (filter (\<lambda>s. s_departmentId s = b_departmentId batch
                                          \<and> s_semester s = b_semester batch) labSubjects)"
  let ?labs = "sort_key l_id (filter (\<lambda>l. l_departmentId l = b_departmentId batch) labList)"
  let ?st0 = "\<lparr>la_entries = [], la_rotations = [], la_explanations = [],
               la_sessionNumber = 0, la_usedSlots = {}, la_subjectIndex = 0\<rparr>"
  have sub: "s \<in> set ?subs \<Longrightarrow> s \<in> set labSubjects" for s by simp
  have iter: "I (la_entries st')"
    if inv: "I (la_entries st)"
      and it: "labIteration env n0 batch ?subs ?labs fac existing rots st = Continue st'
               \<or> labIteration env n0 batch ?subs ?labs fac existing rots st = Break st'"
    for st st' :: LabState
    using labIteration_cases [OF it]
  proof (elim disjE exE conjE)
    assume "la_entries st' = la_entries st"
    with inv show ?thesis by simp
  next
    fix slot subject labFaculty xs
    assume slot: "slot \<in> set (getAvailableLabSlots (existing @ la_entries st) (b_id batch))"
      and subject: "subject \<in> set ?subs"
      and multi: "1 < length (subBatches batch)"
      and ent: "la_entries st' = la_entries
              (foldl (placeSubBatch env n0 batch subject ?labs labFaculty existing rots slot)
                 (st\<lparr>la_usedSlots := insert (slotKey slot) (la_usedSlots st)\<rparr>) xs)"
    note sf = available_slot_facts [OF slot]
    have "I (la_entries
              (foldl (placeSubBatch env n0 batch subject ?labs labFaculty existing rots slot)
                 (st\<lparr>la_usedSlots := insert (slotKey slot) (la_usedSlots st)\<rparr>) xs))"
    proof (rule foldl_invariant [where P = "\<lambda>s :: LabState. I (la_entries s)"])
      show "I (la_entries (st\<lparr>la_usedSlots := insert (slotKey slot) (la_usedSlots st)\<rparr>))"
        using inv by simp
    next
      fix s :: LabState and sbi :: "SubBatch \<times> nat"
      assume inv': "I (la_entries s)"
      from placeSubBatch_cases [of env n0 batch subject ?labs labFaculty existing rots slot s sbi]
      show "I (la_entries (placeSubBatch env n0 batch subject ?labs labFaculty existing rots
                             slot s sbi))"
      proof (elim disjE exE conjE)
        assume "la_entries (placeSubBatch env n0 batch subject ?labs labFaculty existing rots
                              slot s sbi) = la_entries s"
        with inv' show ?thesis by simp
      next
        fix facId lid subBatId
        assume av: "isFacultyAvailableForSlot (existing @ la_entries s) facId (ls_day slot)
                      (ls_periods slot)"
          and eq: "la_entries (placeSubBatch env n0 batch subject ?labs labFaculty existing rots
                                 slot s sbi)
                   = pushLabEntries env n0 slot (s_id subject) facId lid (b_id batch) subBatId
                       (la_entries s)"
        from pushLabEntries_shape [of env n0 slot "s_id subject" facId lid "b_id batch" subBatId
                                      "la_entries s"]
        obtain new where new: "pushLabEntries env n0 slot (s_id subject) facId lid (b_id batch)
                                 subBatId (la_entries s) = la_entries s @ new"
          "map period new = ls_periods slot"
          "\<forall>e \<in> set new. day e = ls_day slot \<and> subjectId e = s_id subject
              \<and> facultyId e = facId \<and> roomId e = lid \<and> batchId e = b_id batch \<and> isLabSession e"
          by blast
        have c: "if 1 < length (subBatches batch)
                 then isFacultyAvailableForSlot (existing @ la_entries s) facId (ls_day slot)
                        (ls_periods slot)
                 else \<not> slotUsed (existing @ la_entries s) (b_id batch) (ls_day slot)
                          (ls_periods slot)"
          using multi av by simp
        have "I (la_entries s @ new)"
          by (rule step [OF inv' sub [OF subject] sf(1) sf(2) c new(2) new(3)])
        with eq new(1) show ?thesis by simp
      qed
    qed
    with ent show ?thesis by simp
  next
    fix slot subject labFaculty xs
    assume slot: "slot \<in> set (getAvailableLabSlots (existing @ la_entries st) (b_id batch))"
      and subject: "subject \<in> set ?subs"
      and single: "\<not> 1 < length (subBatches batch)"
      and ent: "la_entries st' = pushLabEntries env n0 slot (s_id subject)
              (f_id (labFaculty ! 0)) (l_id (?labs ! 0)) (b_id batch) None (la_entries st)"
    note sf = available_slot_facts [OF slot]
    from pushLabEntries_shape [of env n0 slot "s_id subject" "f_id (labFaculty ! 0)"
                                  "l_id (?labs ! 0)" "b_id batch" None "la_entries st"]
    obtain new where new: "pushLabEntries env n0 slot (s_id subject) (f_id (labFaculty ! 0))
                             (l_id (?labs ! 0)) (b_id batch) None (la_entries st)
                           = la_entries st @ new"
      "map period new = ls_periods slot"
      "\<forall>e \<in> set new. day e = ls_day slot \<and> subjectId e = s_id subject
          \<and> facultyId e = f_id (labFaculty ! 0) \<and> roomId e = l_id (?labs ! 0)
          \<and> batchId e = b_id batch \<and> isLabSession e"
      by blast
    have c: "if 1 < length (subBatches batch)
             then isFacultyAvailableForSlot (existing @ la_entries st) (f_id (labFaculty ! 0))
                    (ls_day slot) (ls_periods slot)
             else \<not> slotUsed (existing @ la_entries st) (b_id batch) (ls_day slot)
                      (ls_periods slot)"
      using single sf(3) by simp
    have "I (la_entries st @ new)"
      by (rule step [OF inv sub [OF subject] sf(1) sf(2) c new(2) new(3)])
    with ent new(1) show ?thesis by simp
  qed
  have loop: "I (la_entries (labLoop env n0 batch ?subs ?labs fac existing rots ?st0))"
  proof (rule labLoop_invariant [where P = "\<lambda>s :: LabState. I (la_entries s)"])
    show "I (la_entries ?st0)" using assms(1) by simp
  next
    fix s s' :: LabState
    assume "I (la_entries s)"
      and "labIteration env n0 batch ?subs ?labs fac existing rots s = Continue s'"
    then show "I (la_entries s')" using iter by blast
  next
    fix s s' :: LabState
    assume "I (la_entries s)"
      and "labIteration env n0 batch ?subs ?labs fac existing rots s = Break s'"
    then show "I (la_entries s')" using iter by blast
  qed
  show ?thesis
    unfolding allocateLabsForBatch_def Let_def
    using assms(1) loop by simp
qed
text \<open>
  The rule for the entries accumulated through step 7 of a run: \<open>L\<close> is kept by
  every lab session of step 3 and implies \<open>I\<close>, which is kept by every entry of
  steps 4 to 6; the single library entry of step 7, if any, leads from \<open>I\<close> to \<open>J\<close>.
\<close>

lemma accumulated_entries_rule:
  fixes L I J :: "TimetableEntry list \<Rightarrow> bool"
  assumes base: "L []"
    and lab_step: "\<And>(es :: TimetableEntry list) (new :: TimetableEntry list) (slot :: LabSession)
             (s :: Subject) facId lid. L es \<Longrightarrow> s \<in> set (subjects academic) \<Longrightarrow> s_type s = LAB
           \<Longrightarrow> ls_day slot \<le> 5
           \<Longrightarrow> ls_periods slot = [2, 3, 4] \<or> ls_periods slot = [5, 6, 7]
           \<Longrightarrow> (if 1 < length (subBatches batch)
                then isFacultyAvailableForSlot es facId (ls_day slot) (ls_periods slot)
                else \<not> slotUsed es (b_id batch) (ls_day slot) (ls_periods slot))
           \<Longrightarrow> map period new = ls_periods slot
           \<Longrightarrow> (\<forall>e \<in> set new. day e = ls_day slot \<and> subjectId e = s_id s \<and> facultyId e = facId
                   \<and> roomId e = lid \<and> batchId e = b_id batch \<and> isLabSession e)
           \<Longrightarrow> L (es @ new)"
    and after_labs: "\<And>es. L es \<Longrightarrow> I es"
    and mandatory_step: "\<And>es e s. I es \<Longrightarrow> admits es e \<Longrightarrow> s \<in> set (subjects academic)
           \<Longrightarrow> s_type s = MANDATORY \<Longrightarrow> subjectId e = s_id s \<Longrightarrow> batchId e = b_id batch
           \<Longrightarrow> \<not> isLabSession e \<Longrightarrow> period e = 3 \<Longrightarrow> day e \<le> 1 \<Longrightarrow> I (es @ [e])"
    and theory_step: "\<And>es e s. I es \<Longrightarrow> admits es e \<Longrightarrow> s \<in> set (subjects academic)
           \<Longrightarrow> s_type s = THEORY \<Longrightarrow> subjectId e = s_id s \<Longrightarrow> batchId e = b_id batch
           \<Longrightarrow> \<not> isLabSession e \<Longrightarrow> I (es @ [e])"
    and elective_step: "\<And>es e s. I es \<Longrightarrow> admits es e \<Longrightarrow> s \<in> set (subjects academic)
           \<Longrightarrow> s_type s = OPEN_ELECTIVE \<Longrightarrow> subjectId e = s_id s \<Longrightarrow> batchId e = b_id batch
           \<Longrightarrow> \<not> isLabSession e \<Longrightarrow> period e = 1 \<Longrightarrow> day e \<le> 2 \<Longrightarrow> I (es @ [e])"
    and no_library: "\<And>es. I es \<Longrightarrow> J es"
    and library_step: "\<And>es (e :: TimetableEntry) (s :: Subject). I es
           \<Longrightarrow> isSlotAvailable es (batchId e) (day e) (period e) \<Longrightarrow> facultyId e = []
           \<Longrightarrow> roomId e = [] \<Longrightarrow> batchId e = b_id batch \<Longrightarrow> \<not> isLabSession e
           \<Longrightarrow> s \<in> set (subjects academic) \<Longrightarrow> s_type s = LIBRARY \<Longrightarrow> subjectId e = s_id s
           \<Longrightarrow> J (es @ [e])"
  shows "J (fst (placementPhases env infrastructure academic batch
                   (lr_entries (labStep env infrastructure academic batch rots))))"
proof -
  define a3 where "a3 = lr_entries (labStep env infrastructure academic batch rots)"
  define m4 where "m4 = placeMandatorySubjects env (length a3) batch (subjects academic)
                          (faculty academic) (classrooms infrastructure) a3"
  define a4 where "a4 = a3 @ pl_entries m4"
  define t5 where "t5 = distributeTheorySubjects env (length a4) batch (subjects academic)
                          (faculty academic) (classrooms infrastructure) a4"
  define a5 where "a5 = a4 @ pl_entries t5"
  define e6 where "e6 = placeOpenElectives env (length a5) batch (subjects academic)
                          (faculty academic) (classrooms infrastructure) a5"
  define a6 where "a6 = a5 @ pl_entries e6"
  define l7 where "l7 = autoFillLibrary env (length a6) batch (subjects academic) a6"
  have p: "fst (placementPhases env infrastructure academic batch a3) = a6 @ pl_entries l7"
    by (simp only: placementPhases_def Let_def fst_conv m4_def a4_def t5_def a5_def e6_def
          a6_def l7_def)
  have "L a3"
    unfolding a3_def labStep_def Let_def
  proof (rule allocateLabsForBatch_rule [where I = L])
    show "L []" by (rule base)
  next
    fix es new :: "TimetableEntry list" and slot :: LabSession and s :: Subject and facId lid
    assume i: "L es" and s: "s \<in> set (filter (\<lambda>s. s_type s = LAB) (subjects academic))"
      and d: "ls_day slot \<le> 5"
      and ps: "ls_periods slot = [2, 3, 4] \<or> ls_periods slot = [5, 6, 7]"
      and c0: "if 1 < length (subBatches batch)
           then isFacultyAvailableForSlot ([] @ es) facId (ls_day slot) (ls_periods slot)
           else \<not> slotUsed ([] @ es) (b_id batch) (ls_day slot) (ls_periods slot)"
      and m: "map period new = ls_periods slot"
      and f: "\<forall>e \<in> set new. day e = ls_day slot \<and> subjectId e = s_id s \<and> facultyId e = facId
                   \<and> roomId e = lid \<and> batchId e = b_id batch \<and> isLabSession e"
    from s have s': "s \<in> set (subjects academic)" "s_type s = LAB" by simp_all
    from c0 have c: "if 1 < length (subBatches batch)
           then isFacultyAvailableForSlot es facId (ls_day slot) (ls_periods slot)
           else \<not> slotUsed es (b_id batch) (ls_day slot) (ls_periods slot)"
      by (simp cong: if_cong)
    show "L (es @ new)"
      by (rule lab_step [OF i s' d ps c m f])
  qed
  then have i3: "I a3" by (rule after_labs)
  have i4: "I a4"
    unfolding a4_def m4_def
  proof (rule placeMandatorySubjects_rule [where I = "\<lambda>es. I (a3 @ es)"])
    show "I (a3 @ [])" using i3 by simp
  next
    fix es e s
    assume "I (a3 @ es)" "admits (a3 @ es) e" "s \<in> set (subjects academic)"
      "s_type s = MANDATORY" "subjectId e = s_id s" "batchId e = b_id batch"
      "\<not> isLabSession e" "period e = 3" "day e \<le> 1"
    then have "I ((a3 @ es) @ [e])" by (rule mandatory_step)
    then show "I (a3 @ es @ [e])" by simp
  qed
  have i5: "I a5"
    unfolding a5_def t5_def
  proof (rule distributeTheorySubjects_rule [where I = "\<lambda>es. I (a4 @ es)"])
    show "I (a4 @ [])" using i4 by simp
  next
    fix es e s
    assume "I (a4 @ es)" "admits (a4 @ es) e" "s \<in> set (subjects academic)"
      "s_type s = THEORY" "subjectId e = s_id s" "batchId e = b_id batch"
      "\<not> isLabSession e"
    then have "I ((a4 @ es) @ [e])" by (rule theory_step)
    then show "I (a4 @ es @ [e])" by simp
  qed
  have i6: "I a6"
    unfolding a6_def e6_def
  proof (rule placeOpenElectives_rule [where I = "\<lambda>es. I (a5 @ es)"])
    show "I (a5 @ [])" using i5 by simp
  next
    fix es e s
    assume "I (a5 @ es)" "admits (a5 @ es) e" "s \<in> set (subjects academic)"
      "s_type s = OPEN_ELECTIVE" "subjectId e = s_id s" "batchId e = b_id batch"
      "\<not> isLabSession e" "period e = 1" "day e \<le> 2"
    then have "I ((a5 @ es) @ [e])" by (rule elective_step)
    then show "I (a5 @ es @ [e])" by simp
  qed
  have "J (a6 @ pl_entries l7)"
    unfolding l7_def
  proof (rule autoFillLibrary_rule [where I = "\<lambda>es. J (a6 @ es)"])
    show "J (a6 @ [])" using no_library [OF i6] by simp
  next
    fix e :: TimetableEntry and s :: Subject
    assume "isSlotAvailable a6 (batchId e) (day e) (period e)" "facultyId e = []"
      "roomId e = []" "batchId e = b_id batch" "\<not> isLabSession e"
      "s \<in> set (subjects academic)" "s_type s = LIBRARY" "subjectId e = s_id s"
    with i6 show "J (a6 @ [e])" by (rule library_step)
  qed
  then show ?thesis
    unfolding a3_def [symmetric] p .
qed

section \<open>Unknown target batch\<close>

text \<open>
  Claim C10. Whenever step-1 validation passes and no batch of the academic snapshot
  has the requested batch id, \<open>generateTimetable\<close> returns \<open>success = false\<close> and no
  timetable, and its explanation list ends with an ERROR from source SCHEDULER at
  step 2 that reports the batch as not found.
\<close>

theorem generateTimetable_batch_not_found:
  assumes "v_isValid (validateAll infrastructure academic)"
    and "bid \<notin> set (map b_id (batches academic))"
  shows "success (generateTimetable env infrastructure academic bid rots) = False
       \<and> timetable (generateTimetable env infrastructure academic bid rots) = None
       \<and> explanations (generateTimetable env infrastructure academic bid rots)
          = v_explanations (validateAll infrastructure academic)
            @ [\<lparr>level = INFO, source = VALIDATOR,
                 message = ''All inputs validated successfully.'',
                 relatedEntityId = None, step = Some 1\<rparr>,
               \<lparr>level = ERROR, source = SCHEDULER,
                 message = ''Batch with ID \"'' @ bid @ ''\" not found.'',
                 relatedEntityId = None, step = Some 2\<rparr>]"
proof -
  from assms(2) have "find (\<lambda>b. b_id b = bid) (batches academic) = None"
    by (auto simp: find_None_iff)
  with assms(1) show ?thesis
    by (simp add: generateTimetable_def Let_def explain_def)
qed

theorem generateTimetable_batch_not_found_witness:
  "v_isValid (validateAll sampleInfrastructure splitAcademic)
   \<and> ''b9'' \<notin> set (map b_id (batches splitAcademic))
   \<and> success (generateTimetable sampleEnv sampleInfrastructure splitAcademic ''b9'' []) = False
   \<and> timetable (generateTimetable sampleEnv sampleInfrastructure splitAcademic ''b9'' []) = None
   \<and> explanations (generateTimetable sampleEnv sampleInfrastructure splitAcademic ''b9'' [])
      = [\<lparr>level = INFO, source = VALIDATOR,
           message = ''All inputs validated successfully.'',
           relatedEntityId = None, step = Some 1\<rparr>,
         \<lparr>level = ERROR, source = SCHEDULER,
           message = ''Batch with ID \"b9\" not found.'',
           relatedEntityId = None, step = Some 2\<rparr>]"
proof -
  have v: "v_isValid (validateAll sampleInfrastructure splitAcademic)"
    by code_simp
  have e: "v_explanations (validateAll sampleInfrastructure splitAcademic) = []"
    by code_simp
  have n: "''b9'' \<notin> set (map b_id (batches splitAcademic))"
    by code_simp
  from generateTimetable_batch_not_found [OF v n, of sampleEnv "[]"] v n e
  show ?thesis by simp
qed

section \<open>Preconditions of the lab allocator\<close>

text \<open>
  Claim C5. \<open>allocateLabsForBatch\<close> returns \<open>success = false\<close>, no entries, no
  rotations and a single ERROR explanation (source LAB_ALLOCATOR, step 3) whenever
  no lab subject is scoped to the batch's department and semester, or no lab is in
  the batch's department, or fewer than 2 (day, slot) pairs are available; the
  available pairs are exactly Slot A = periods 2, 3, 4 and Slot B = periods 5, 6, 7
  of the days 0 to 5 on which no entry of this batch occupies one of the slot's
  periods; and when validation passes and the target batch has no LAB subject in
  its department and semester, \<open>generateTimetable\<close> returns \<open>success = false\<close>, no
  timetable, and ends its explanations with that ERROR of step 3 from LAB_ALLOCATOR.
\<close>

theorem allocateLabsForBatch_preconditions:
  "(filter (\<lambda>s. s_departmentId s = b_departmentId batch \<and> s_semester s = b_semester batch)
       labSubjects = []
    \<or> filter (\<lambda>l. l_departmentId l = b_departmentId batch) labList = []
    \<or> length (getAvailableLabSlots existing (b_id batch)) < 2
    \<longrightarrow> \<not> lr_success (allocateLabsForBatch env n0 batch labSubjects labList fac existing rots)
      \<and> lr_entries (allocateLabsForBatch env n0 batch labSubjects labList fac existing rots) = []
      \<and> lr_rotations (allocateLabsForBatch env n0 batch labSubjects labList fac existing rots) = []
      \<and> (\<exists>msg. lr_explanations
                  (allocateLabsForBatch env n0 batch labSubjects labList fac existing rots)
                = [\<lparr>level = ERROR, source = LAB_ALLOCATOR, message = msg,
                     relatedEntityId = Some (b_id batch), step = Some 3\<rparr>]))
   \<and> (slot \<in> set (getAvailableLabSlots existing bid)
        \<longleftrightarrow> ls_day slot \<le> 5
          \<and> (ls_slot slot = SlotA \<and> ls_periods slot = [2, 3, 4]
             \<or> ls_slot slot = SlotB \<and> ls_periods slot = [5, 6, 7])
          \<and> (\<forall>p \<in> set (ls_periods slot). \<forall>e \<in> set existing.
                \<not> (batchId e = bid \<and> day e = ls_day slot \<and> period e = p)))
   \<and> (v_isValid (validateAll infrastructure academic)
      \<and> find (\<lambda>b. b_id b = target) (batches academic) = Some batch
      \<and> filter (\<lambda>s. s_type s = LAB \<and> s_departmentId s = b_departmentId batch
                    \<and> s_semester s = b_semester batch) (subjects academic) = []
      \<longrightarrow> success (generateTimetable env infrastructure academic target rots) = False
        \<and> timetable (generateTimetable env infrastructure academic target rots) = None
        \<and> last (explanations (generateTimetable env infrastructure academic target rots))
           = \<lparr>level = ERROR, source = LAB_ALLOCATOR,
               message = ''No lab subjects found for batch \"'' @ b_name batch @ ''\".'',
               relatedEntityId = Some (b_id batch), step = Some 3\<rparr>)"
proof (intro conjI impI)
  let ?r = "allocateLabsForBatch env n0 batch labSubjects labList fac existing rots"
  assume pre: "filter (\<lambda>s. s_departmentId s = b_departmentId batch
                          \<and> s_semester s = b_semester batch) labSubjects = []
    \<or> filter (\<lambda>l. l_departmentId l = b_departmentId batch) labList = []
    \<or> length (getAvailableLabSlots existing (b_id batch)) < 2"
  then have "\<not> lr_success ?r \<and> lr_entries ?r = [] \<and> lr_rotations ?r = []
      \<and> (\<exists>msg. lr_explanations ?r
                = [\<lparr>level = ERROR, source = LAB_ALLOCATOR, message = msg,
                     relatedEntityId = Some (b_id batch), step = Some 3\<rparr>])"
    by (auto simp: allocateLabsForBatch_def Let_def explain_def
          MIN_LAB_SESSIONS_PER_WEEK_def)
  then show "\<not> lr_success ?r" and "lr_entries ?r = []" and "lr_rotations ?r = []"
    and "\<exists>msg. lr_explanations ?r
                = [\<lparr>level = ERROR, source = LAB_ALLOCATOR, message = msg,
                     relatedEntityId = Some (b_id batch), step = Some 3\<rparr>]"
    by blast+
next
  show "slot \<in> set (getAvailableLabSlots existing bid)
        \<longleftrightarrow> ls_day slot \<le> 5
          \<and> (ls_slot slot = SlotA \<and> ls_periods slot = [2, 3, 4]
             \<or> ls_slot slot = SlotB \<and> ls_periods slot = [5, 6, 7])
          \<and> (\<forall>p \<in> set (ls_periods slot). \<forall>e \<in> set existing.
                \<not> (batchId e = bid \<and> day e = ls_day slot \<and> period e = p))"
    unfolding set_getAvailableLabSlots slotUsed_iff
    by (cases slot) auto
next
  let ?g = "generateTimetable env infrastructure academic target rots"
  assume h: "v_isValid (validateAll infrastructure academic)
      \<and> find (\<lambda>b. b_id b = target) (batches academic) = Some batch
      \<and> filter (\<lambda>s. s_type s = LAB \<and> s_departmentId s = b_departmentId batch
                    \<and> s_semester s = b_semester batch) (subjects academic) = []"
  then have empty: "filter (\<lambda>s. s_type s = LAB \<and> s_departmentId s = b_departmentId batch
                    \<and> s_semester s = b_semester batch) (subjects academic) = []"
    by simp
  have lab: "labStep env infrastructure academic batch rots =
      \<lparr>lr_entries = [], lr_rotations = [],
       lr_explanations =
         [explain ERROR LAB_ALLOCATOR
            (''No lab subjects found for batch \"'' @ b_name batch @ ''\".'')
            (Some (b_id batch)) (Some 3)],
       lr_success = False\<rparr>"
    by (simp add: labStep_def allocateLabsForBatch_def Let_def empty)
  from h have g: "?g = \<lparr>success = False, timetable = None,
       explanations = v_explanations (validateAll infrastructure academic)
         @ [explain INFO VALIDATOR ''All inputs validated successfully.'' None (Some 1),
            explain INFO SCHEDULER ''Academic time structure locked.'' None (Some 2),
            explain ERROR LAB_ALLOCATOR
              (''No lab subjects found for batch \"'' @ b_name batch @ ''\".'')
              (Some (b_id batch)) (Some 3)]\<rparr>"
    by (simp add: generateTimetable_def Let_def lab)
  show "success ?g = False" and "timetable ?g = None"
    and "last (explanations ?g)
           = \<lparr>level = ERROR, source = LAB_ALLOCATOR,
               message = ''No lab subjects found for batch \"'' @ b_name batch @ ''\".'',
               relatedEntityId = Some (b_id batch), step = Some 3\<rparr>"
    by (simp_all add: g explain_def)
qed
theorem allocateLabsForBatch_preconditions_witness:
  "filter (\<lambda>l. l_departmentId l = b_departmentId wholeBatch) [] = []
   \<and> \<not> lr_success (allocateLabsForBatch sampleEnv 0 wholeBatch [osLab] [] [] crowdedWeek [])
   \<and> lr_entries (allocateLabsForBatch sampleEnv 0 wholeBatch [osLab] [] [] crowdedWeek []) = []
   \<and> length (getAvailableLabSlots crowdedWeek (b_id wholeBatch)) < 2
   \<and> \<not> lr_success (allocateLabsForBatch sampleEnv 0 wholeBatch [osLab]
                      (labs sampleInfrastructure) [] crowdedWeek [])
   \<and> \<lparr>ls_day = 5, ls_slot = SlotB, ls_periods = [5, 6, 7]\<rparr>
        \<in> set (getAvailableLabSlots crowdedWeek ''b2'')
   \<and> v_isValid (validateAll sampleInfrastructure theoryOnlyAcademic)
   \<and> find (\<lambda>b. b_id b = ''b2'') (batches theoryOnlyAcademic) = Some wholeBatch
   \<and> success (generateTimetable sampleEnv sampleInfrastructure theoryOnlyAcademic ''b2'' [])
       = False
   \<and> last (explanations
             (generateTimetable sampleEnv sampleInfrastructure theoryOnlyAcademic ''b2'' []))
       = \<lparr>level = ERROR, source = LAB_ALLOCATOR,
           message = ''No lab subjects found for batch \"CSE-3B\".'',
           relatedEntityId = Some ''b2'', step = Some 3\<rparr>"
proof -
  have few: "length (getAvailableLabSlots crowdedWeek (b_id wholeBatch)) < 2"
    by code_simp
  have free: "\<forall>p \<in> set [5, 6, 7]. \<forall>e \<in> set crowdedWeek.
                \<not> (batchId e = ''b2'' \<and> day e = 5 \<and> period e = p)"
    by code_simp
  have v: "v_isValid (validateAll sampleInfrastructure theoryOnlyAcademic)"
    by code_simp
  have f: "find (\<lambda>b. b_id b = ''b2'') (batches theoryOnlyAcademic) = Some wholeBatch"
    by code_simp
  have none: "filter (\<lambda>s. s_type s = LAB \<and> s_departmentId s = b_departmentId wholeBatch
                          \<and> s_semester s = b_semester wholeBatch)
                (subjects theoryOnlyAcademic) = []"
    by code_simp
  have nm: "b_name wholeBatch = ''CSE-3B''" and bi: "b_id wholeBatch = ''b2''"
    by (simp_all add: wholeBatch_def)
  note a = allocateLabsForBatch_preconditions
    [of wholeBatch "[osLab]" "[]" crowdedWeek sampleEnv 0 "[]" "[]"
        "\<lparr>ls_day = 5, ls_slot = SlotB, ls_periods = [5, 6, 7]\<rparr>" "''b2''"
        sampleInfrastructure theoryOnlyAcademic "''b2''"]
  note b = allocateLabsForBatch_preconditions
    [of wholeBatch "[osLab]" "labs sampleInfrastructure" crowdedWeek sampleEnv 0 "[]" "[]"
        "\<lparr>ls_day = 5, ls_slot = SlotB, ls_periods = [5, 6, 7]\<rparr>" "''b2''"
        sampleInfrastructure theoryOnlyAcademic "''b2''"]
  from a b few free v f none show ?thesis
    by (simp add: nm bi)
qed

section \<open>Workload statistics\<close>











section \<open>Sub-batch splitting\<close>

lemma subBatchLoop_length:
  "length (subBatchLoop env n0 cap num i r acc) = length acc + nat (num - int i)"
proof (induction env n0 cap num i r acc rule: subBatchLoop.induct)
  case (1 env n0 cap num i r acc)
  show ?case
  proof (cases "int i < num")
    case True
    with "1.IH" [OF True refl] show ?thesis
      by (simp add: subBatchLoop.simps [of env n0 cap num i] Let_def)
  next
    case False
    then show ?thesis by (simp add: subBatchLoop.simps [of env n0 cap num i])
  qed
qed

lemma subBatchLoop_counts:
  assumes "0 < cap" and "int i < num"
    and "(num - int i - 1) * cap < r" and "r \<le> (num - int i) * cap"
  shows "map studentCount (subBatchLoop env n0 cap num i r acc)
         = map studentCount acc @ replicate (nat (num - int i) - 1) cap
           @ [r - (num - int i - 1) * cap]"
  using assms
proof (induction env n0 cap num i r acc rule: subBatchLoop.induct)
  case (1 env n0 cap num i r acc)
  let ?new = "\<lparr>sb_id = uuidv4 env (n0 + i), sb_name = ''A'' @ show_nat (i + 1),
               studentCount = min cap r\<rparr>"
  have unfold: "subBatchLoop env n0 cap num i r acc
              = subBatchLoop env n0 cap num (i + 1) (r - min cap r) (acc @ [?new])"
    using "1.prems"(2) by (simp add: subBatchLoop.simps [of env n0 cap num i] Let_def)
  show ?case
  proof (cases "num - int i = 1")
    case True
    with "1.prems" have "r \<le> cap" and stop: "\<not> int (i + 1) < num" by simp_all
    then have "min cap r = r" by simp
    with stop True show ?thesis
      by (simp add: unfold subBatchLoop.simps [of env n0 cap num "Suc i"])
  next
    case False
    with "1.prems"(2) have more: "int (i + 1) < num" by simp
    then have "1 \<le> num - int i - 1" by simp
    then have "1 * cap \<le> (num - int i - 1) * cap"
      using "1.prems"(1) by (intro mult_right_mono) simp_all
    with "1.prems"(3) have big: "cap < r" by simp
    then have m: "min cap r = cap" by simp
    have a: "(num - int (i + 1) - 1) * cap < r - cap"
      using "1.prems"(3) by (simp add: algebra_simps)
    have b: "r - cap \<le> (num - int (i + 1)) * cap"
      using "1.prems"(4) by (simp add: algebra_simps)
    have ih: "map studentCount
                (subBatchLoop env n0 cap num (i + 1) (r - cap) (acc @ [?new]))
              = map studentCount (acc @ [?new])
                @ replicate (nat (num - int (i + 1)) - 1) cap
                @ [r - cap - (num - int (i + 1) - 1) * cap]"
      using "1.IH" [OF "1.prems"(2) refl "1.prems"(1) more] a b m by simp
    have k: "nat (num - int i) - Suc 0 = Suc (nat (num - int (i + 1)) - Suc 0)"
      using more by simp
    have l: "r - cap - (num - int (i + 1) - 1) * cap = r - (num - int i - 1) * cap"
      by (simp add: algebra_simps)
    have "map studentCount (subBatchLoop env n0 cap num i r acc)
          = map studentCount acc @ (cap # replicate (nat (num - int (i + 1)) - Suc 0) cap)
            @ [r - cap - (num - int (i + 1) - 1) * cap]"
      using ih unfold m by simp
    also have "cap # replicate (nat (num - int (i + 1)) - Suc 0) cap
               = replicate (Suc (nat (num - int (i + 1)) - Suc 0)) cap"
      by simp
    also have "Suc (nat (num - int (i + 1)) - Suc 0) = nat (num - int i) - 1"
      using more by linarith
    finally show ?thesis
      using l by simp
  qed
qed

lemma ceiling_quotient_bounds:
  fixes t c :: int
  assumes "0 < c"
  shows "(\<lceil>(of_int t :: rat) / of_int c\<rceil> - 1) * c < t"
    and "t \<le> \<lceil>(of_int t :: rat) / of_int c\<rceil> * c"
proof -
  let ?n = "\<lceil>(of_int t :: rat) / of_int c\<rceil>"
  from assms have c: "(0 :: rat) < of_int c" by simp
  have "of_int ?n - 1 < (of_int t :: rat) / of_int c"
    using ceiling_correct [of "(of_int t :: rat) / of_int c"] by (rule conjunct1)
  with c have lo: "(of_int ?n - 1) * of_int c < (of_int t :: rat)"
    by (simp only: pos_less_divide_eq)
  have "(of_int t :: rat) / of_int c \<le> of_int ?n"
    by (rule le_of_int_ceiling)
  with c have hi: "(of_int t :: rat) \<le> of_int ?n * of_int c"
    by (simp only: pos_divide_le_eq)
  from lo hi
  have "(of_int ((?n - 1) * c) :: rat) < of_int t"
    and "(of_int t :: rat) \<le> of_int (?n * c)"
    by simp_all
  then show "(?n - 1) * c < t" and "t \<le> ?n * c"
    by (simp_all only: of_int_less_iff of_int_le_iff)
qed

text \<open>
  Claim C8. When the lab capacity is at least the student count,
  \<open>calculateSubBatches\<close> returns exactly one sub-batch with all the students.
  Otherwise, for a positive lab capacity (the invariant of the data model), it
  returns \<open>ceil(totalStudents / labCapacity)\<close> sub-batches; all but the last hold
  \<open>labCapacity\<close> students, the last holds the rest (at least one student, at most
  \<open>labCapacity\<close>), and the counts sum to \<open>totalStudents\<close>. 70 students with lab
  capacity 30 give the counts 30, 30, 10.
\<close>

theorem calculateSubBatches_split:
  "(nStudents \<le> labCapacity \<longrightarrow>
      calculateSubBatches env n0 nStudents labCapacity
        = Some [\<lparr>sb_id = uuidv4 env n0, sb_name = ''A'', studentCount = nStudents\<rparr>])
   \<and> (0 < labCapacity \<and> labCapacity < nStudents \<longrightarrow>
       (\<exists>sbs. calculateSubBatches env n0 nStudents labCapacity = Some sbs
          \<and> int (length sbs) = \<lceil>(of_int nStudents :: rat) / of_int labCapacity\<rceil>
          \<and> map studentCount sbs
              = replicate (length sbs - 1) labCapacity
                @ [nStudents - int (length sbs - 1) * labCapacity]
          \<and> 0 < nStudents - int (length sbs - 1) * labCapacity
          \<and> nStudents - int (length sbs - 1) * labCapacity \<le> labCapacity
          \<and> sum_list (map studentCount sbs) = nStudents))
   \<and> map_option (map studentCount) (calculateSubBatches env n0 70 30) = Some [30, 30, 10]"
proof (intro conjI impI)
  assume "nStudents \<le> labCapacity"
  then show "calculateSubBatches env n0 nStudents labCapacity
        = Some [\<lparr>sb_id = uuidv4 env n0, sb_name = ''A'', studentCount = nStudents\<rparr>]"
    by (simp add: calculateSubBatches_def)
next
  assume h: "0 < labCapacity \<and> labCapacity < nStudents"
  let ?n = "\<lceil>(of_int nStudents :: rat) / of_int labCapacity\<rceil>"
  let ?sbs = "subBatchLoop env n0 labCapacity ?n 0 nStudents []"
  from h have lo: "(?n - 1) * labCapacity < nStudents"
    and hi: "nStudents \<le> ?n * labCapacity"
    using ceiling_quotient_bounds [of labCapacity nStudents] by simp_all
  have pos: "0 < ?n"
  proof (rule ccontr)
    assume "\<not> 0 < ?n"
    then have "?n \<le> 0" by simp
    with h have "?n * labCapacity \<le> 0" by (simp add: mult_le_0_iff)
    with hi h show False by simp
  qed
  have res: "calculateSubBatches env n0 nStudents labCapacity = Some ?sbs"
    using h by (simp add: calculateSubBatches_def Let_def)
  have len: "int (length ?sbs) = ?n"
    using pos by (simp add: subBatchLoop_length)
  then have len1: "int (length ?sbs - 1) = ?n - 1"
    using pos by linarith
  have A: "map studentCount ?sbs
        = replicate (nat ?n - Suc 0) labCapacity @ [nStudents - (?n - 1) * labCapacity]"
    using subBatchLoop_counts [where cap = labCapacity and i = 0 and num = ?n
        and r = nStudents and acc = "[]" and env = env and ?n0.0 = n0] h pos lo hi
    by simp
  have B: "nat ?n - Suc 0 = length ?sbs - 1"
    using len by linarith
  have counts: "map studentCount ?sbs
        = replicate (length ?sbs - 1) labCapacity
          @ [nStudents - int (length ?sbs - 1) * labCapacity]"
    by (simp only: A B len1)
  have last_pos: "0 < nStudents - int (length ?sbs - 1) * labCapacity"
    unfolding len1 using lo by simp
  have last_le: "nStudents - int (length ?sbs - 1) * labCapacity \<le> labCapacity"
    unfolding len1 using hi by (simp add: algebra_simps)
  have "sum_list (map studentCount ?sbs)
        = sum_list (replicate (length ?sbs - 1) labCapacity
                    @ [nStudents - int (length ?sbs - 1) * labCapacity])"
    using counts by simp
  also have "\<dots> = nStudents"
    by (simp add: sum_list_replicate)
  finally have total: "sum_list (map studentCount ?sbs) = nStudents" .
  from res len counts last_pos last_le total
  show "\<exists>sbs. calculateSubBatches env n0 nStudents labCapacity = Some sbs
          \<and> int (length sbs) = ?n
          \<and> map studentCount sbs
              = replicate (length sbs - 1) labCapacity
                @ [nStudents - int (length sbs - 1) * labCapacity]
          \<and> 0 < nStudents - int (length sbs - 1) * labCapacity
          \<and> nStudents - int (length sbs - 1) * labCapacity \<le> labCapacity
          \<and> sum_list (map studentCount sbs) = nStudents"
    by blast
next
  have c: "\<lceil>(70 :: rat) / 30\<rceil> = 3"
    by (rule ceiling_unique) simp_all
  show "map_option (map studentCount) (calculateSubBatches env n0 70 30) = Some [30, 30, 10]"
    by (simp add: calculateSubBatches_def Let_def c subBatchLoop.simps)
qed

theorem calculateSubBatches_split_witness:
  "(0 :: int) < 30 \<and> (30 :: int) < 70
   \<and> calculateSubBatches sampleEnv 0 70 30
      = Some [\<lparr>sb_id = ''0'', sb_name = ''A1'', studentCount = 30\<rparr>,
              \<lparr>sb_id = ''1'', sb_name = ''A2'', studentCount = 30\<rparr>,
              \<lparr>sb_id = ''2'', sb_name = ''A3'', studentCount = 10\<rparr>]
   \<and> (70 :: int) \<le> 80
   \<and> calculateSubBatches sampleEnv 0 70 80
      = Some [\<lparr>sb_id = ''0'', sb_name = ''A'', studentCount = 70\<rparr>]
   \<and> sum_list (map studentCount (the (calculateSubBatches sampleEnv 0 70 30))) = 70"
proof -
  have v: "calculateSubBatches sampleEnv 0 70 30
      = Some [\<lparr>sb_id = ''0'', sb_name = ''A1'', studentCount = 30\<rparr>,
              \<lparr>sb_id = ''1'', sb_name = ''A2'', studentCount = 30\<rparr>,
              \<lparr>sb_id = ''2'', sb_name = ''A3'', studentCount = 10\<rparr>]"
    by code_simp
  have u: "uuidv4 sampleEnv 0 = ''0''"
    by code_simp
  from calculateSubBatches_split [of 70 30 sampleEnv 0]
  have "sum_list (map studentCount (the (calculateSubBatches sampleEnv 0 70 30))) = 70"
    by auto
  moreover from calculateSubBatches_split [of 70 80 sampleEnv 0]
  have "calculateSubBatches sampleEnv 0 70 80
      = Some [\<lparr>sb_id = ''0'', sb_name = ''A'', studentCount = 70\<rparr>]"
    by (simp add: u)
  ultimately show ?thesis using v by simp
qed

section \<open>The workload gate of step 8\<close>

text \<open>
  Claim C3. \<open>hasWorkloadViolation\<close> is true if and only if, for some faculty, the
  computed statistics have \<open>theoryPeriods\<close> above the theory limit of the faculty's
  designation or \<open>labSessions\<close> above its lab limit; and when it is true on the
  entries accumulated through step 7 (validation passed, the batch was found, the
  lab allocation succeeded), \<open>generateTimetable\<close> returns \<open>success = false\<close> and no
  timetable.
\<close>

theorem hasWorkloadViolation_gate:
  "(hasWorkloadViolation fs subs entries \<longleftrightarrow>
      (\<exists>f. f \<in> set fs
         \<and> (of_nat (theoryPeriods (facultyStats entries f))
               > lim_theoryPeriods (FACULTY_WORKLOAD_LIMITS (designation f))
            \<or> of_nat (labSessions (facultyStats entries f))
               > lim_labSessions (FACULTY_WORKLOAD_LIMITS (designation f)))))
   \<and> (v_isValid (validateAll infrastructure academic)
      \<and> find (\<lambda>b. b_id b = bid) (batches academic) = Some batch
      \<and> lr_success (labStep env infrastructure academic batch rots)
      \<and> hasWorkloadViolation (faculty academic) (subjects academic)
           (fst (placementPhases env infrastructure academic batch
                   (lr_entries (labStep env infrastructure academic batch rots))))
      \<longrightarrow> success (generateTimetable env infrastructure academic bid rots) = False
        \<and> timetable (generateTimetable env infrastructure academic bid rots) = None)"
proof (intro conjI impI)
  have "hasWorkloadViolation fs subs entries
        \<longleftrightarrow> (\<exists>f. f \<in> set (sort_key f_id fs) \<and> isOverloaded (facultyStats entries f))"
    by (auto simp: hasWorkloadViolation_def calculateWorkload_def list_ex_iff)
  also have "\<dots> \<longleftrightarrow> (\<exists>f. f \<in> set fs \<and> isOverloaded (facultyStats entries f))"
    by simp
  also have "\<dots> \<longleftrightarrow> (\<exists>f. f \<in> set fs
         \<and> (of_nat (theoryPeriods (facultyStats entries f))
               > lim_theoryPeriods (FACULTY_WORKLOAD_LIMITS (designation f))
            \<or> of_nat (labSessions (facultyStats entries f))
               > lim_labSessions (FACULTY_WORKLOAD_LIMITS (designation f))))"
    by (simp add: facultyStats_def Let_def)
  finally show "hasWorkloadViolation fs subs entries \<longleftrightarrow>
      (\<exists>f. f \<in> set fs
         \<and> (of_nat (theoryPeriods (facultyStats entries f))
               > lim_theoryPeriods (FACULTY_WORKLOAD_LIMITS (designation f))
            \<or> of_nat (labSessions (facultyStats entries f))
               > lim_labSessions (FACULTY_WORKLOAD_LIMITS (designation f))))" .
next
  assume h: "v_isValid (validateAll infrastructure academic)
      \<and> find (\<lambda>b. b_id b = bid) (batches academic) = Some batch
      \<and> lr_success (labStep env infrastructure academic batch rots)
      \<and> hasWorkloadViolation (faculty academic) (subjects academic)
           (fst (placementPhases env infrastructure academic batch
                   (lr_entries (labStep env infrastructure academic batch rots))))"
  then show "success (generateTimetable env infrastructure academic bid rots) = False"
    by (simp add: generateTimetable_def Let_def)
  from h show "timetable (generateTimetable env infrastructure academic bid rots) = None"
    by (simp add: generateTimetable_def Let_def)
qed

theorem hasWorkloadViolation_gate_witness:
  "v_isValid (validateAll sampleInfrastructure busyAcademic)
   \<and> find (\<lambda>b. b_id b = ''b2'') (batches busyAcademic) = Some wholeBatch
   \<and> lr_success (labStep sampleEnv sampleInfrastructure busyAcademic wholeBatch [])
   \<and> hasWorkloadViolation (faculty busyAcademic) (subjects busyAcademic)
        (fst (placementPhases sampleEnv sampleInfrastructure busyAcademic wholeBatch
                (lr_entries (labStep sampleEnv sampleInfrastructure busyAcademic wholeBatch []))))
   \<and> theoryPeriods
        (facultyStats
           (fst (placementPhases sampleEnv sampleInfrastructure busyAcademic wholeBatch
             (lr_entries (labStep sampleEnv sampleInfrastructure busyAcademic wholeBatch []))))
           cy) = 6
   \<and> success (generateTimetable sampleEnv sampleInfrastructure busyAcademic ''b2'' []) = False
   \<and> timetable (generateTimetable sampleEnv sampleInfrastructure busyAcademic ''b2'' []) = None"
proof -
  have v: "v_isValid (validateAll sampleInfrastructure busyAcademic)"
    by code_simp
  have f: "find (\<lambda>b. b_id b = ''b2'') (batches busyAcademic) = Some wholeBatch"
    by code_simp
  have l: "lr_success (labStep sampleEnv sampleInfrastructure busyAcademic wholeBatch [])"
    by code_simp
  have w: "hasWorkloadViolation (faculty busyAcademic) (subjects busyAcademic)
        (fst (placementPhases sampleEnv sampleInfrastructure busyAcademic wholeBatch
                (lr_entries (labStep sampleEnv sampleInfrastructure busyAcademic wholeBatch []))))"
    by code_simp
  have six: "theoryPeriods
        (facultyStats
           (fst (placementPhases sampleEnv sampleInfrastructure busyAcademic wholeBatch
             (lr_entries (labStep sampleEnv sampleInfrastructure busyAcademic wholeBatch []))))
           cy) = 6"
    by code_simp
  from hasWorkloadViolation_gate
    [of "faculty busyAcademic" "subjects busyAcademic" "[]" sampleInfrastructure
        busyAcademic "''b2''" wholeBatch sampleEnv "[]"] v f l w six
  show ?thesis by simp
qed

section \<open>Open electives that are skipped without a word\<close>

text \<open>
  Claim C9 says that in step 6 every missing precondition of a subject -- slot
  occupied, no assigned theory faculty, faculty unavailable, no available department
  classroom -- emits a WARNING and skips the subject. The code returns from two of
  them without any explanation. Here \<open>wholeBatch\<close> has the open elective Drama and
  its department has no classroom: \<open>placeOpenElectives\<close> places nothing and explains
  nothing, the whole run succeeds, and no explanation of step 6 is in its log. The
  same holds when nobody is assigned to the elective. Step 4, on the same inputs,
  reports an ERROR for the mandatory subject Ethics in both situations.
\<close>

theorem placeOpenElectives_silent_skip:
  "placeOpenElectives sampleEnv 0 wholeBatch [drama] [dee] (classrooms remoteInfrastructure) []
     = \<lparr>pl_entries = [], pl_explanations = []\<rparr>
   \<and> placeOpenElectives sampleEnv 0 wholeBatch [drama] [] (classrooms sampleInfrastructure) []
     = \<lparr>pl_entries = [], pl_explanations = []\<rparr>
   \<and> success (generateTimetable sampleEnv remoteInfrastructure electiveAcademic ''b2'' [])
   \<and> filter (\<lambda>e. step e = Some 6 \<or> level e = WARNING)
        (explanations (generateTimetable sampleEnv remoteInfrastructure electiveAcademic ''b2'' []))
      = []
   \<and> map (\<lambda>e. (level e, source e, step e))
        (pl_explanations (placeMandatorySubjects sampleEnv 0 wholeBatch [ethics] [dee]
                            (classrooms remoteInfrastructure) []))
      = [(ERROR, SCHEDULER, Some 4)]
   \<and> map (\<lambda>e. (level e, source e, step e))
        (pl_explanations (placeMandatorySubjects sampleEnv 0 wholeBatch [ethics] []
                            (classrooms sampleInfrastructure) []))
      = [(ERROR, SCHEDULER, Some 4)]"
  by code_simp

section \<open>A batch with a single lab subject\<close>

text \<open>
  Claim C4 says that the allocation loop cycles through the subjects by index modulo
  the subject count until \<open>max(subjectCount, MIN_LAB_SESSIONS_PER_WEEK)\<close> sessions are
  placed, so that a batch with one lab subject gets 2 sessions of it. The loop
  condition also asks for \<open>subjectIndex < sortedLabSubjects.length\<close>, which ends the
  loop after one session: with the single lab subject OS Lab (taught by Ann), all
  twelve (day, slot) pairs free and a lab in the department, one session of three
  entries is placed, the allocator reports that it could only allocate 1 session and
  returns \<open>success = false\<close>, and so does \<open>generateTimetable\<close>.
\<close>

theorem allocateLabs_single_subject_one_session:
  "length (getAvailableLabSlots [] (b_id wholeBatch)) = 12
   \<and> length (filter (\<lambda>s. s_type s = LAB) (subjects oneLabAcademic)) = 1
   \<and> \<not> lr_success (labStep sampleEnv sampleInfrastructure oneLabAcademic wholeBatch [])
   \<and> map (\<lambda>e. (day e, period e, subjectId e, labSlot e))
        (lr_entries (labStep sampleEnv sampleInfrastructure oneLabAcademic wholeBatch []))
      = [(0, 2, ''x1'', Some SlotA), (0, 3, ''x1'', Some SlotA), (0, 4, ''x1'', Some SlotA)]
   \<and> map (\<lambda>e. (level e, message e))
        (lr_explanations (labStep sampleEnv sampleInfrastructure oneLabAcademic wholeBatch []))
      = [(INFO, ''Allocated OS Lab for CSE-3B in Lab1 (Slot A, Day 1).''),
         (ERROR, ''Could only allocate 1 lab sessions for batch \"CSE-3B\". Minimum required: 2.'')]
   \<and> v_isValid (validateAll sampleInfrastructure oneLabAcademic)
   \<and> success (generateTimetable sampleEnv sampleInfrastructure oneLabAcademic ''b2'' []) = False"
  by code_simp

section \<open>Determinism\<close>

lemma erase_fields [simp]:
  "day (erase e) = day e" "period (erase e) = period e" "subjectId (erase e) = subjectId e"
  "facultyId (erase e) = facultyId e" "roomId (erase e) = roomId e"
  "batchId (erase e) = batchId e" "subBatchId (erase e) = subBatchId e"
  "isLabSession (erase e) = isLabSession e" "labSlot (erase e) = labSlot e"
  "slotId (erase e) = slotId e"
  by (simp_all add: erase_def)

lemma list_ex_map_erase:
  assumes "\<And>e. P (erase e) = P e"
  shows "list_ex P (map erase es) = list_ex P es"
  using assms by (simp add: list_ex_iff)

lemma isSlotAvailable_erase [simp]:
  "isSlotAvailable (map erase es) bid d p = isSlotAvailable es bid d p"
  by (simp add: isSlotAvailable_def list_ex_map_erase)

lemma isFacultyAvailable_erase [simp]:
  "isFacultyAvailable (map erase es) fid d p = isFacultyAvailable es fid d p"
  by (simp add: isFacultyAvailable_def list_ex_map_erase)

lemma isRoomAvailable_erase [simp]:
  "isRoomAvailable (map erase es) rid d p = isRoomAvailable es rid d p"
  by (simp add: isRoomAvailable_def list_ex_map_erase)

lemma slotUsed_erase [simp]:
  "slotUsed (map erase es) bid d ps = slotUsed es bid d ps"
  by (simp add: slotUsed_def list_ex_map_erase)

lemma isFacultyAvailableForSlot_erase [simp]:
  "isFacultyAvailableForSlot (map erase es) fid d ps = isFacultyAvailableForSlot es fid d ps"
  by (simp add: isFacultyAvailableForSlot_def list_ex_map_erase)

lemma getAvailableLabSlots_erase [simp]:
  "getAvailableLabSlots (map erase es) bid = getAvailableLabSlots es bid"
  by (simp add: getAvailableLabSlots_def)

lemma erase_labEntry [simp]:
  "erase (labEntry env k slot p subjId facId lid batId subBatId)
     = erasedLabEntry slot p subjId facId lid batId subBatId"
  by (simp add: erase_def labEntry_def blankEnv_def erasedLabEntry_def)

lemma labEntry_blankEnv [simp]:
  "labEntry blankEnv k slot p subjId facId lid batId subBatId
     = erasedLabEntry slot p subjId facId lid batId subBatId"
  by (simp add: labEntry_def blankEnv_def erasedLabEntry_def)

lemma erase_placeTheoryEntry [simp]:
  "erase (placeTheoryEntry env k batch subject facId cid d p)
     = erasedTheoryEntry batch subject facId cid d p"
  by (simp add: erase_def placeTheoryEntry_def blankEnv_def erasedTheoryEntry_def)

lemma placeTheoryEntry_blankEnv [simp]:
  "placeTheoryEntry blankEnv k batch subject facId cid d p
     = erasedTheoryEntry batch subject facId cid d p"
  by (simp add: placeTheoryEntry_def blankEnv_def erasedTheoryEntry_def)

lemma foldl_labEntry_erase:
  "map erase (foldl (\<lambda>es p. es @ [labEntry env (n0 + length es) slot p subjId facId lid batId
                                     subBatId]) es ps)
   = foldl (\<lambda>es p. es @ [labEntry blankEnv (m + length es) slot p subjId facId lid batId
                           subBatId]) (map erase es) ps"
  by (induction ps arbitrary: es) simp_all

lemma pushLabEntries_erase:
  "map erase (pushLabEntries env n0 slot subjId facId lid batId subBatId es)
   = pushLabEntries blankEnv m slot subjId facId lid batId subBatId (map erase es)"
  unfolding pushLabEntries_def by (rule foldl_labEntry_erase)

lemma eraseLab_fields [simp]:
  "la_entries (eraseLab st) = map erase (la_entries st)"
  "la_rotations (eraseLab st) = la_rotations st"
  "la_explanations (eraseLab st) = la_explanations st"
  "la_sessionNumber (eraseLab st) = la_sessionNumber st"
  "la_usedSlots (eraseLab st) = la_usedSlots st"
  "la_subjectIndex (eraseLab st) = la_subjectIndex st"
  by (simp_all add: eraseLab_def)

lemma placeSubBatch_erase:
  "eraseLab (placeSubBatch env n0 batch subject deptLabs labFaculty existing rots slot st sbi)
   = placeSubBatch blankEnv m batch subject deptLabs labFaculty (map erase existing) rots slot
       (eraseLab st) sbi"
proof -
  have av: "isFacultyAvailableForSlot (map erase existing @ map erase (la_entries st)) fid d ps
          = isFacultyAvailableForSlot (existing @ la_entries st) fid d ps" for fid d ps
    using isFacultyAvailableForSlot_erase [of "existing @ la_entries st" fid d ps] by simp
  show ?thesis
    unfolding placeSubBatch_def Let_def
    by (simp add: av eraseLab_def pushLabEntries_erase [of env n0 _ _ _ _ _ _ _ m]
          split: option.splits)
qed

lemma foldl_placeSubBatch_erase:
  "eraseLab (foldl (placeSubBatch env n0 batch subject deptLabs labFaculty existing rots slot)
               st xs)
   = foldl (placeSubBatch blankEnv m batch subject deptLabs labFaculty (map erase existing) rots
              slot) (eraseLab st) xs"
  by (induction xs arbitrary: st) (simp_all add: placeSubBatch_erase [of env n0 _ _ _ _ _ _ _ _ _ m])

lemma placeWholeBatch_erase:
  "eraseLab (placeWholeBatch env n0 batch subject deptLabs labFaculty slot st)
   = placeWholeBatch blankEnv m batch subject deptLabs labFaculty slot (eraseLab st)"
  unfolding placeWholeBatch_def Let_def
  by (simp add: eraseLab_def pushLabEntries_erase [of env n0 _ _ _ _ _ _ _ m])
lemma availability_erase_append [simp]:
  "isSlotAvailable (map erase xs @ map erase ys) bid d p = isSlotAvailable (xs @ ys) bid d p"
  "isFacultyAvailable (map erase xs @ map erase ys) fid d p
     = isFacultyAvailable (xs @ ys) fid d p"
  "isRoomAvailable (map erase xs @ map erase ys) rid d p = isRoomAvailable (xs @ ys) rid d p"
  "isFacultyAvailableForSlot (map erase xs @ map erase ys) fid d ps
     = isFacultyAvailableForSlot (xs @ ys) fid d ps"
  "getAvailableLabSlots (map erase xs @ map erase ys) bid = getAvailableLabSlots (xs @ ys) bid"
  using isSlotAvailable_erase [of "xs @ ys"] isFacultyAvailable_erase [of "xs @ ys"]
    isRoomAvailable_erase [of "xs @ ys"] isFacultyAvailableForSlot_erase [of "xs @ ys"]
    getAvailableLabSlots_erase [of "xs @ ys"]
  by simp_all

lemma eraseLab_updates [simp]:
  "eraseLab (st\<lparr>la_usedSlots := u\<rparr>) = (eraseLab st)\<lparr>la_usedSlots := u\<rparr>"
  "eraseLab (st\<lparr>la_explanations := x\<rparr>) = (eraseLab st)\<lparr>la_explanations := x\<rparr>"
  "eraseLab (st\<lparr>la_rotations := r\<rparr>) = (eraseLab st)\<lparr>la_rotations := r\<rparr>"
  "eraseLab (st\<lparr>la_sessionNumber := n\<rparr>) = (eraseLab st)\<lparr>la_sessionNumber := n\<rparr>"
  "eraseLab (st\<lparr>la_subjectIndex := i\<rparr>) = (eraseLab st)\<lparr>la_subjectIndex := i\<rparr>"
  by (simp_all add: eraseLab_def)

lemma placeSubBatch_counters:
  "la_sessionNumber (placeSubBatch env n0 batch subject deptLabs labFaculty existing rots slot
                       st sbi) = la_sessionNumber st"
  "la_subjectIndex (placeSubBatch env n0 batch subject deptLabs labFaculty existing rots slot
                      st sbi) = la_subjectIndex st"
  by (simp_all add: placeSubBatch_def Let_def split: option.splits)

lemma foldl_placeSubBatch_counters:
  "la_sessionNumber (foldl (placeSubBatch env n0 batch subject deptLabs labFaculty existing rots
                              slot) st xs) = la_sessionNumber st"
  "la_subjectIndex (foldl (placeSubBatch env n0 batch subject deptLabs labFaculty existing rots
                             slot) st xs) = la_subjectIndex st"
  by (induction xs arbitrary: st) (simp_all add: placeSubBatch_counters)

lemma placeWholeBatch_counters:
  "la_sessionNumber (placeWholeBatch env n0 batch subject deptLabs labFaculty slot st)
     = la_sessionNumber st"
  "la_subjectIndex (placeWholeBatch env n0 batch subject deptLabs labFaculty slot st)
     = la_subjectIndex st"
  by (simp_all add: placeWholeBatch_def Let_def)

lemma labIteration_erase:
  "map_LoopStep eraseLab (labIteration env n0 batch subs deptLabs fac existing rots st)
   = labIteration blankEnv m batch subs deptLabs fac (map erase existing) rots (eraseLab st)"
  unfolding labIteration_def Let_def
  by (auto simp: foldl_placeSubBatch_erase [where m = m] placeWholeBatch_erase [where m = m]
        foldl_placeSubBatch_counters placeWholeBatch_counters
      split: option.splits)

lemma labLoop_erase:
  "eraseLab (labLoop env n0 batch subs deptLabs fac existing rots st)
   = labLoop blankEnv m batch subs deptLabs fac (map erase existing) rots (eraseLab st)"
proof (induction env n0 batch subs deptLabs fac existing rots st rule: labLoop.induct)
  case (1 env n0 batch subs deptLabs fac existing rots st)
  note it = labIteration_erase [of env n0 batch subs deptLabs fac existing rots st m]
  show ?case
  proof (cases "labIteration env n0 batch subs deptLabs fac existing rots st")
    case (Break st')
    with it have "labIteration blankEnv m batch subs deptLabs fac (map erase existing) rots
                    (eraseLab st) = Break (eraseLab st')"
      by simp
    with Break show ?thesis
      by (simp add: labLoop.simps [of env n0 batch subs deptLabs fac existing rots st]
            labLoop.simps [of blankEnv m batch subs deptLabs fac "map erase existing" rots
                              "eraseLab st"])
  next
    case (Continue st')
    with it have "labIteration blankEnv m batch subs deptLabs fac (map erase existing) rots
                    (eraseLab st) = Continue (eraseLab st')"
      by simp
    with Continue "1.IH" [OF Continue] show ?thesis
      by (simp add: labLoop.simps [of env n0 batch subs deptLabs fac existing rots st]
            labLoop.simps [of blankEnv m batch subs deptLabs fac "map erase existing" rots
                              "eraseLab st"])
  qed
qed

lemma allocateLabsForBatch_erase:
  "eraseLabResult (allocateLabsForBatch env n0 batch labSubjects labList fac existing rots)
   = allocateLabsForBatch blankEnv m batch labSubjects labList fac (map erase existing) rots"
proof -
  let ?st0 = "\<lparr>la_entries = [], la_rotations = [], la_explanations = [],
               la_sessionNumber = 0, la_usedSlots = {}, la_subjectIndex = 0\<rparr>"
  have st0: "eraseLab ?st0 = ?st0" by (simp add: eraseLab_def)
  have loop: "labLoop blankEnv m batch subs deptLabs fac (map erase existing) rots ?st0
              = eraseLab (labLoop env n0 batch subs deptLabs fac existing rots ?st0)"
    for subs deptLabs
    using labLoop_erase [of env n0 batch subs deptLabs fac existing rots ?st0 m]
    by (simp only: st0)
  show ?thesis
    unfolding allocateLabsForBatch_def Let_def
    by (simp add: loop eraseLabResult_def)
qed
lemma erasePlacement_fields [simp]:
  "pl_entries (erasePlacement a) = map erase (pl_entries a)"
  "pl_explanations (erasePlacement a) = pl_explanations a"
  by (simp_all add: erasePlacement_def)

lemma erasePlacement_updates [simp]:
  "erasePlacement (a\<lparr>pl_explanations := x\<rparr>) = (erasePlacement a)\<lparr>pl_explanations := x\<rparr>"
  "erasePlacement \<lparr>pl_entries = es, pl_explanations = x\<rparr>
     = \<lparr>pl_entries = map erase es, pl_explanations = x\<rparr>"
  by (simp_all add: erasePlacement_def)

lemma mandatoryStep_erase:
  "erasePlacement (mandatoryStep env n0 batch fac rooms existing acc si)
   = mandatoryStep blankEnv m batch fac rooms (map erase existing) (erasePlacement acc) si"
  unfolding mandatoryStep_def Let_def
  by (simp split: list.splits option.splits)

lemma foldl_mandatoryStep_erase:
  "erasePlacement (foldl (mandatoryStep env n0 batch fac rooms existing) acc xs)
   = foldl (mandatoryStep blankEnv m batch fac rooms (map erase existing)) (erasePlacement acc) xs"
  by (induction xs arbitrary: acc) (simp_all add: mandatoryStep_erase [where m = m])

lemma placeMandatorySubjects_erase:
  "erasePlacement (placeMandatorySubjects env n0 batch subs fac rooms existing)
   = placeMandatorySubjects blankEnv m batch subs fac rooms (map erase existing)"
  unfolding placeMandatorySubjects_def Let_def
  by (simp add: foldl_mandatoryStep_erase [where m = m])

lemma electiveStep_erase:
  "erasePlacement (electiveStep env n0 batch fac rooms existing acc si)
   = electiveStep blankEnv m batch fac rooms (map erase existing) (erasePlacement acc) si"
  unfolding electiveStep_def Let_def
  by (simp split: list.splits option.splits)

lemma foldl_electiveStep_erase:
  "erasePlacement (foldl (electiveStep env n0 batch fac rooms existing) acc xs)
   = foldl (electiveStep blankEnv m batch fac rooms (map erase existing)) (erasePlacement acc) xs"
  by (induction xs arbitrary: acc) (simp_all add: electiveStep_erase [where m = m])

lemma placeOpenElectives_erase:
  "erasePlacement (placeOpenElectives env n0 batch subs fac rooms existing)
   = placeOpenElectives blankEnv m batch subs fac rooms (map erase existing)"
  unfolding placeOpenElectives_def Let_def
  by (simp add: foldl_electiveStep_erase [where m = m])

lemma autoFillLibrary_erase:
  "erasePlacement (autoFillLibrary env n0 batch subs existing)
   = autoFillLibrary blankEnv m batch subs (map erase existing)"
  unfolding autoFillLibrary_def
  by (simp add: erase_def blankEnv_def split: list.splits option.splits)

lemma eraseTheoryLoop_fields [simp]:
  "tl_entries (eraseTheoryLoop st) = map erase (tl_entries st)"
  "tl_placedCount (eraseTheoryLoop st) = tl_placedCount st"
  "tl_periodIndex (eraseTheoryLoop st) = tl_periodIndex st"
  "tl_dayIndex (eraseTheoryLoop st) = tl_dayIndex st"
  "tl_attempts (eraseTheoryLoop st) = tl_attempts st"
  by (simp_all add: eraseTheoryLoop_def)

lemma theoryLoopBody_erase:
  "eraseTheoryLoop (theoryLoopBody env n0 batch subject facId cid existing st)
   = theoryLoopBody blankEnv m batch subject facId cid (map erase existing) (eraseTheoryLoop st)"
  unfolding theoryLoopBody_def Let_def
  by (simp add: eraseTheoryLoop_def)

lemma theoryLoop_erase:
  "eraseTheoryLoop (theoryLoop env n0 batch subject facId cid existing periodsToPlace
                      maxAttempts st)
   = theoryLoop blankEnv m batch subject facId cid (map erase existing) periodsToPlace
       maxAttempts (eraseTheoryLoop st)"
proof (induction env n0 batch subject facId cid existing periodsToPlace maxAttempts st
       rule: theoryLoop.induct)
  case (1 env n0 batch subject facId cid existing periodsToPlace maxAttempts st)
  show ?case
  proof (cases "int (tl_placedCount st) < periodsToPlace \<and> tl_attempts st < maxAttempts")
    case True
    with "1.IH" show ?thesis
      by (simp add: theoryLoop.simps [of env n0 batch subject facId cid existing periodsToPlace
                                         maxAttempts st]
            theoryLoop.simps [of blankEnv m batch subject facId cid "map erase existing"
                                 periodsToPlace maxAttempts "eraseTheoryLoop st"]
            theoryLoopBody_erase [where m = m])
  next
    case False
    then show ?thesis
      by (auto simp: theoryLoop.simps [of env n0 batch subject facId cid existing periodsToPlace
                                         maxAttempts st]
            theoryLoop.simps [of blankEnv m batch subject facId cid "map erase existing"
                                 periodsToPlace maxAttempts "eraseTheoryLoop st"])
  qed
qed

lemma theorySubjectStep_erase:
  "eraseTheoryState (theorySubjectStep env n0 batch fac rooms existing ts subject)
   = theorySubjectStep blankEnv m batch fac rooms (map erase existing) (eraseTheoryState ts)
       subject"
proof -
  have loop: "theoryLoop blankEnv m batch subject facId cid (map erase existing) ptp ma
                \<lparr>tl_entries = map erase (th_entries ts), tl_placedCount = 0, tl_periodIndex = 0,
                 tl_dayIndex = th_globalDayIndex ts, tl_attempts = 0\<rparr>
              = eraseTheoryLoop (theoryLoop env n0 batch subject facId cid existing ptp ma
                \<lparr>tl_entries = th_entries ts, tl_placedCount = 0, tl_periodIndex = 0,
                 tl_dayIndex = th_globalDayIndex ts, tl_attempts = 0\<rparr>)"
    for facId cid ptp ma
    using theoryLoop_erase [of env n0 batch subject facId cid existing ptp ma
        "\<lparr>tl_entries = th_entries ts, tl_placedCount = 0, tl_periodIndex = 0,
          tl_dayIndex = th_globalDayIndex ts, tl_attempts = 0\<rparr>" m]
    by (simp add: eraseTheoryLoop_def)
  show ?thesis
    unfolding theorySubjectStep_def Let_def
    by (simp add: eraseTheoryState_def loop split: list.splits)
qed

lemma foldl_theorySubjectStep_erase:
  "eraseTheoryState (foldl (theorySubjectStep env n0 batch fac rooms existing) ts xs)
   = foldl (theorySubjectStep blankEnv m batch fac rooms (map erase existing))
       (eraseTheoryState ts) xs"
  by (induction xs arbitrary: ts) (simp_all add: theorySubjectStep_erase [where m = m])

lemma distributeTheorySubjects_erase:
  "erasePlacement (distributeTheorySubjects env n0 batch subs fac rooms existing)
   = distributeTheorySubjects blankEnv m batch subs fac rooms (map erase existing)"
proof -
  let ?ts0 = "\<lparr>th_entries = [], th_explanations = [], th_globalDayIndex = 0\<rparr>"
  have ts0: "eraseTheoryState ?ts0 = ?ts0" by (simp add: eraseTheoryState_def)
  have fold: "foldl (theorySubjectStep blankEnv m batch fac rooms (map erase existing)) ?ts0 xs
              = eraseTheoryState
                  (foldl (theorySubjectStep env n0 batch fac rooms existing) ?ts0 xs)" for xs
    using foldl_theorySubjectStep_erase [of env n0 batch fac rooms existing ?ts0 xs m]
    by (simp only: ts0)
  show ?thesis
    unfolding distributeTheorySubjects_def Let_def
    by (simp add: fold eraseTheoryState_def)
qed
lemma placementPhases_erase:
  "fst (placementPhases blankEnv infra acad batch (map erase all3))
     = map erase (fst (placementPhases env infra acad batch all3))"
  "snd (placementPhases blankEnv infra acad batch (map erase all3))
     = snd (placementPhases env infra acad batch all3)"
proof -
  define m4 where "m4 = placeMandatorySubjects env (length all3) batch (subjects acad)
                          (faculty acad) (classrooms infra) all3"
  define a4 where "a4 = all3 @ pl_entries m4"
  define t5 where "t5 = distributeTheorySubjects env (length a4) batch (subjects acad)
                          (faculty acad) (classrooms infra) a4"
  define a5 where "a5 = a4 @ pl_entries t5"
  define e6 where "e6 = placeOpenElectives env (length a5) batch (subjects acad)
                          (faculty acad) (classrooms infra) a5"
  define a6 where "a6 = a5 @ pl_entries e6"
  define l7 where "l7 = autoFillLibrary env (length a6) batch (subjects acad) a6"
  define a7 where "a7 = a6 @ pl_entries l7"
  have p: "placementPhases env infra acad batch all3
           = (a7, pl_explanations m4 @ pl_explanations t5 @ pl_explanations e6
                  @ pl_explanations l7)"
    by (simp only: placementPhases_def Let_def m4_def a4_def t5_def a5_def e6_def a6_def
          l7_def a7_def)
  have m4': "placeMandatorySubjects blankEnv k batch (subjects acad) (faculty acad)
               (classrooms infra) (map erase all3) = erasePlacement m4" for k
    unfolding m4_def by (rule placeMandatorySubjects_erase [symmetric])
  have a4': "map erase all3 @ map erase (pl_entries m4) = map erase a4"
    by (simp add: a4_def)
  have t5': "distributeTheorySubjects blankEnv k batch (subjects acad) (faculty acad)
               (classrooms infra) (map erase a4) = erasePlacement t5" for k
    unfolding t5_def by (rule distributeTheorySubjects_erase [symmetric])
  have a5': "map erase a4 @ map erase (pl_entries t5) = map erase a5"
    by (simp add: a5_def)
  have e6': "placeOpenElectives blankEnv k batch (subjects acad) (faculty acad)
               (classrooms infra) (map erase a5) = erasePlacement e6" for k
    unfolding e6_def by (rule placeOpenElectives_erase [symmetric])
  have a6': "map erase a5 @ map erase (pl_entries e6) = map erase a6"
    by (simp add: a6_def)
  have l7': "autoFillLibrary blankEnv k batch (subjects acad) (map erase a6)
             = erasePlacement l7" for k
    unfolding l7_def by (rule autoFillLibrary_erase [symmetric])
  have a7': "map erase a6 @ map erase (pl_entries l7) = map erase a7"
    by (simp add: a7_def)
  have q: "placementPhases blankEnv infra acad batch (map erase all3)
           = (map erase a7, pl_explanations m4 @ pl_explanations t5 @ pl_explanations e6
                  @ pl_explanations l7)"
    unfolding placementPhases_def Let_def
    by (simp only: m4' erasePlacement_fields a4' t5' a5' e6' a6' l7' a7')
  show "fst (placementPhases blankEnv infra acad batch (map erase all3))
     = map erase (fst (placementPhases env infra acad batch all3))"
    by (simp add: p q)
  show "snd (placementPhases blankEnv infra acad batch (map erase all3))
     = snd (placementPhases env infra acad batch all3)"
    by (simp add: p q)
qed

lemma labSessionKey_erase [simp]: "labSessionKey (erase e) = labSessionKey e"
  by (simp add: labSessionKey_def)

lemma facultyStats_erase [simp]: "facultyStats (map erase es) = facultyStats es"
  by (rule ext) (simp add: facultyStats_def Let_def filter_map comp_def image_image)

lemma workload_erase [simp]:
  "calculateWorkload fs subs (map erase es) = calculateWorkload fs subs es"
  "validateWorkload fs subs (map erase es) = validateWorkload fs subs es"
  "hasWorkloadViolation fs subs (map erase es) = hasWorkloadViolation fs subs es"
  by (simp_all add: calculateWorkload_def validateWorkload_def hasWorkloadViolation_def)

lemma insort_key_erase:
  "insort_key (\<lambda>e. (day e, period e)) (erase x) (map erase xs)
   = map erase (insort_key (\<lambda>e. (day e, period e)) x xs)"
  by (induction xs) simp_all

lemma sort_key_erase:
  "sort_key (\<lambda>e. (day e, period e)) (map erase es)
   = map erase (sort_key (\<lambda>e. (day e, period e)) es)"
  by (induction es) (simp_all add: insort_key_erase)

lemma erase_idem [simp]: "erase (erase e) = erase e"
  by (simp add: erase_def)

lemma labStep_erase:
  "labStep blankEnv infra acad batch rots = eraseLabResult (labStep env infra acad batch rots)"
  unfolding labStep_def Let_def
  using allocateLabsForBatch_erase [of env 0 batch _ _ "faculty acad" "[]" rots 0]
  by simp

lemma eraseLabResult_fields [simp]:
  "lr_entries (eraseLabResult r) = map erase (lr_entries r)"
  "lr_rotations (eraseLabResult r) = lr_rotations r"
  "lr_explanations (eraseLabResult r) = lr_explanations r"
  "lr_success (eraseLabResult r) = lr_success r"
  by (simp_all add: eraseLabResult_def)

lemma generateTimetable_erase:
  "success (generateTimetable env infra acad bid rots)
     = success (generateTimetable blankEnv infra acad bid rots)"
  "explanations (generateTimetable env infra acad bid rots)
     = explanations (generateTimetable blankEnv infra acad bid rots)"
  "erasedEntries (generateTimetable env infra acad bid rots)
     = erasedEntries (generateTimetable blankEnv infra acad bid rots)"
  unfolding generateTimetable_def Let_def erasedEntries_def
  by (simp_all add: labStep_erase [of infra acad _ rots env]
        placementPhases_erase [where env = env] sort_key_erase
      split: option.splits)
lemma erase_eq_iff:
  "erase a = erase b \<longleftrightarrow>
     slotId a = slotId b \<and> day a = day b \<and> period a = period b
     \<and> subjectId a = subjectId b \<and> facultyId a = facultyId b \<and> roomId a = roomId b
     \<and> batchId a = batchId b \<and> subBatchId a = subBatchId b
     \<and> isLabSession a = isLabSession b \<and> labSlot a = labSlot b"
  by (cases a; cases b) (auto simp: erase_def)

text \<open>
  Claim C2. Two runs of \<open>generateTimetable\<close> on the same infrastructure and academic
  snapshots, target batch id and prior rotations, with any two identifier and clock
  sources, agree on \<open>success\<close>, on the explanations, and on the entry list of the
  timetable once the generated id and the \<open>createdAt\<close> stamp of every entry are
  erased: same length, same order, and in every position the same slot id, day,
  period, subject, faculty, room, batch, sub-batch, lab flag and lab slot (two
  entries have the same erasure exactly when they agree on these fields).
\<close>

theorem generateTimetable_deterministic:
  "success (generateTimetable env1 infra acad bid rots)
     = success (generateTimetable env2 infra acad bid rots)
   \<and> erasedEntries (generateTimetable env1 infra acad bid rots)
     = erasedEntries (generateTimetable env2 infra acad bid rots)
   \<and> explanations (generateTimetable env1 infra acad bid rots)
     = explanations (generateTimetable env2 infra acad bid rots)
   \<and> (erase a = erase b \<longleftrightarrow>
        slotId a = slotId b \<and> day a = day b \<and> period a = period b
        \<and> subjectId a = subjectId b \<and> facultyId a = facultyId b \<and> roomId a = roomId b
        \<and> batchId a = batchId b \<and> subBatchId a = subBatchId b
        \<and> isLabSession a = isLabSession b \<and> labSlot a = labSlot b)"
proof (intro conjI)
  show "success (generateTimetable env1 infra acad bid rots)
     = success (generateTimetable env2 infra acad bid rots)"
    using generateTimetable_erase(1) [of env1 infra acad bid rots]
      generateTimetable_erase(1) [of env2 infra acad bid rots] by simp
  show "erasedEntries (generateTimetable env1 infra acad bid rots)
     = erasedEntries (generateTimetable env2 infra acad bid rots)"
    using generateTimetable_erase(3) [of env1 infra acad bid rots]
      generateTimetable_erase(3) [of env2 infra acad bid rots] by simp
  show "explanations (generateTimetable env1 infra acad bid rots)
     = explanations (generateTimetable env2 infra acad bid rots)"
    using generateTimetable_erase(2) [of env1 infra acad bid rots]
      generateTimetable_erase(2) [of env2 infra acad bid rots] by simp
  show "erase a = erase b \<longleftrightarrow>
        slotId a = slotId b \<and> day a = day b \<and> period a = period b
        \<and> subjectId a = subjectId b \<and> facultyId a = facultyId b \<and> roomId a = roomId b
        \<and> batchId a = batchId b \<and> subBatchId a = subBatchId b
        \<and> isLabSession a = isLabSession b \<and> labSlot a = labSlot b"
    by (rule erase_eq_iff)
qed

text \<open>
  The identifiers themselves do follow the source: the same run with \<open>sampleEnv\<close>
  and with \<open>blankEnv\<close> returns entries with different ids.
\<close>

lemma generateTimetable_ids_follow_source:
  "map_option (\<lambda>t. map e_id (t_entries t))
     (timetable (generateTimetable sampleEnv sampleInfrastructure splitAcademic ''b1'' []))
   = Some [''0'', ''3'', ''1'', ''4'', ''2'', ''5'', ''6'', ''9'', ''7'', ''10'', ''8'', ''11'']
   \<and> map_option (\<lambda>t. map e_id (t_entries t))
     (timetable (generateTimetable blankEnv sampleInfrastructure splitAcademic ''b1'' []))
   = Some (replicate 12 [])"
  by code_simp

section \<open>Where mandatory, elective and library entries are placed\<close>

lemma subject_of_id:
  assumes "distinct (map s_id subs)" and "s \<in> set subs" and "s' \<in> set subs"
    and "s_id s = s_id s'"
  shows "s = s'"
  using assms by (auto simp: distinct_map dest: inj_onD)

lemma entryForType_iff:
  assumes "distinct (map s_id subs)" and "s \<in> set subs" and "subjectId e = s_id s"
  shows "entryForType subs ty e \<longleftrightarrow> s_type s = ty"
proof
  assume "entryForType subs ty e"
  then obtain s' where "s' \<in> set subs" "s_id s' = subjectId e" "s_type s' = ty"
    by (auto simp: entryForType_def list_ex_iff)
  with assms subject_of_id [of subs s s'] show "s_type s = ty" by simp
next
  assume "s_type s = ty"
  with assms(2,3) show "entryForType subs ty e"
    by (auto simp: entryForType_def list_ex_iff)
qed

text \<open>
  Claim C7. When the subject ids are pairwise distinct and \<open>generateTimetable\<close>
  returns a timetable, every entry of it for a MANDATORY subject has period 3 and
  day 0 or 1, every entry for an OPEN_ELECTIVE subject has period 1 and day 0, 1 or
  2, and at most one entry is for a LIBRARY subject.
\<close>

theorem generated_entries_placement:
  assumes "distinct (map s_id (subjects academic))"
    and "timetable (generateTimetable env infrastructure academic bid rots) = Some tt"
  shows "list_all (placedAsRequired (subjects academic)) (t_entries tt)
       \<and> length (filter (entryForType (subjects academic) LIBRARY) (t_entries tt)) \<le> 1"
proof -
  let ?subs = "subjects academic"
  from generateTimetable_Some [OF assms(2)] obtain batch where
    tt: "t_entries tt = sort_key (\<lambda>e. (day e, period e))
                (fst (placementPhases env infrastructure academic batch
                        (lr_entries (labStep env infrastructure academic batch rots))))"
    by blast
  let ?acc = "fst (placementPhases env infrastructure academic batch
                     (lr_entries (labStep env infrastructure academic batch rots)))"
  define I where "I = (\<lambda>es :: TimetableEntry list.
     list_all (placedAsRequired ?subs) es \<and> filter (entryForType ?subs LIBRARY) es = [])"
  define J where "J = (\<lambda>es :: TimetableEntry list.
     list_all (placedAsRequired ?subs) es
     \<and> length (filter (entryForType ?subs LIBRARY) es) \<le> 1)"
  have typed: "placedAsRequired ?subs e \<longleftrightarrow>
       (s_type s = MANDATORY \<longrightarrow> period e = 3 \<and> (day e = 0 \<or> day e = 1))
     \<and> (s_type s = OPEN_ELECTIVE \<longrightarrow> period e = 1 \<and> (day e = 0 \<or> day e = 1 \<or> day e = 2))"
    and lib: "entryForType ?subs LIBRARY e \<longleftrightarrow> s_type s = LIBRARY"
    if "s \<in> set ?subs" "subjectId e = s_id s" for s :: Subject and e :: TimetableEntry
    using entryForType_iff [OF assms(1) that] by (simp_all add: placedAsRequired_def)
  have "J ?acc"
  proof (rule accumulated_entries_rule [where L = I and I = I and J = J])
    show "I []" by (simp add: I_def)
  next
    fix es new :: "TimetableEntry list" and slot :: LabSession and s :: Subject and facId lid
    assume "I es" and s: "s \<in> set ?subs" "s_type s = LAB"
      and "\<forall>e \<in> set new. day e = ls_day slot \<and> subjectId e = s_id s \<and> facultyId e = facId
                   \<and> roomId e = lid \<and> batchId e = b_id batch \<and> isLabSession e"
    then show "I (es @ new)"
      using typed [OF s(1)] lib [OF s(1)]
      by (auto simp: I_def list_all_iff filter_empty_conv)
  next
    fix es :: "TimetableEntry list" assume "I es" then show "I es" .
  next
    fix es :: "TimetableEntry list" and e :: TimetableEntry and s :: Subject
    assume "I es" and s: "s \<in> set ?subs" "s_type s = MANDATORY" "subjectId e = s_id s"
      and "period e = 3" "day e \<le> 1"
    then show "I (es @ [e])"
      using typed [OF s(1,3)] lib [OF s(1,3)]
      by (auto simp: I_def)
  next
    fix es :: "TimetableEntry list" and e :: TimetableEntry and s :: Subject
    assume "I es" and s: "s \<in> set ?subs" "s_type s = THEORY" "subjectId e = s_id s"
    then show "I (es @ [e])"
      using typed [OF s(1,3)] lib [OF s(1,3)]
      by (auto simp: I_def)
  next
    fix es :: "TimetableEntry list" and e :: TimetableEntry and s :: Subject
    assume "I es" and s: "s \<in> set ?subs" "s_type s = OPEN_ELECTIVE" "subjectId e = s_id s"
      and "period e = 1" "day e \<le> 2"
    then show "I (es @ [e])"
      using typed [OF s(1,3)] lib [OF s(1,3)]
      by (auto simp: I_def)
  next
    fix es :: "TimetableEntry list" assume "I es" then show "J es" by (simp add: I_def J_def)
  next
    fix es :: "TimetableEntry list" and e :: TimetableEntry and s :: Subject
    assume "I es" and s: "s \<in> set ?subs" "s_type s = LIBRARY" "subjectId e = s_id s"
    then show "J (es @ [e])"
      using typed [OF s(1,3)] lib [OF s(1,3)]
      by (auto simp: I_def J_def)
  qed
  then have a: "list_all (placedAsRequired ?subs) ?acc"
    and b: "length (filter (entryForType ?subs LIBRARY) ?acc) \<le> 1"
    by (simp_all add: J_def)
  from a have "list_all (placedAsRequired ?subs) (t_entries tt)"
    by (simp add: tt list_all_iff)
  moreover have "length (filter (entryForType ?subs LIBRARY) (t_entries tt))
                 = length (filter (entryForType ?subs LIBRARY) ?acc)"
    by (simp add: tt filter_sort)
  ultimately show ?thesis using b by simp
qed

theorem generated_entries_placement_witness:
  "distinct (map s_id (subjects fullAcademic))
   \<and> timetable (generateTimetable sampleEnv sampleInfrastructure fullAcademic ''b2'' []) \<noteq> None
   \<and> list_all (placedAsRequired (subjects fullAcademic))
        (t_entries (the (timetable
           (generateTimetable sampleEnv sampleInfrastructure fullAcademic ''b2'' []))))
   \<and> length (filter (entryForType (subjects fullAcademic) LIBRARY)
        (t_entries (the (timetable
           (generateTimetable sampleEnv sampleInfrastructure fullAcademic ''b2'' []))))) \<le> 1
   \<and> map (\<lambda>e. (day e, period e, subjectId e))
        (filter (\<lambda>e. \<not> isLabSession e)
           (t_entries (the (timetable
              (generateTimetable sampleEnv sampleInfrastructure fullAcademic ''b2'' [])))))
      = [(0, 1, ''o2''), (1, 1, ''r1''), (1, 2, ''t1''), (1, 3, ''m2''), (2, 4, ''t1''),
         (3, 5, ''t1'')]"
proof -
  let ?g = "generateTimetable sampleEnv sampleInfrastructure fullAcademic ''b2'' []"
  have d: "distinct (map s_id (subjects fullAcademic))"
    by code_simp
  have ne: "timetable ?g \<noteq> None"
    by code_simp
  then have some: "timetable ?g = Some (the (timetable ?g))"
    by simp
  have shown: "map (\<lambda>e. (day e, period e, subjectId e))
        (filter (\<lambda>e. \<not> isLabSession e) (t_entries (the (timetable ?g))))
      = [(0, 1, ''o2''), (1, 1, ''r1''), (1, 2, ''t1''), (1, 3, ''m2''), (2, 4, ''t1''),
         (3, 5, ''t1'')]"
    by code_simp
  from generated_entries_placement [OF d some] d ne shown show ?thesis
    by simp
qed

section \<open>Conflicts between entries\<close>













end
